theory Spec2Isabelle
  imports Main
begin

section \<open>JavaScript values\<close>

text \<open>
  The server is TypeScript whose casts are unchecked, so the model works on the values the
  program sees at run time. A JavaScript string is a sequence of UTF-16 code units;
  \<open>str\<close> injects an ASCII literal. The program does no arithmetic: of a number it
  only asks whether it is truthy, whether it is \<open>0\<close>, and for its text. So a number is
  carried as the text JavaScript prints for it (\<open>1\<close>, \<open>500\<close>, \<open>1.5\<close>,
  \<open>1e+21\<close>, \<open>NaN\<close>, \<open>Infinity\<close>); negative zero prints as \<open>0\<close> and is the
  same value to this program. Every number is covered, and its text is exact. An object is
  the list of its own enumerable properties in enumeration order, which is the order
  \<open>Object.keys\<close> yields; its keys are meant to be distinct.
\<close>

type_synonym jsstring = "nat list"

definition str :: "string \<Rightarrow> jsstring" where
  "str s = map of_char s"

datatype jsval =
    JUndefined
  | JNull
  | JBool bool
  | JNum jsstring
  | JStr jsstring
  | JArr "jsval list"
  | JObj "(jsstring \<times> jsval) list"

datatype error_code = InvalidRequest | InvalidParams | MethodNotFound | InternalError

text \<open>
  What a \<open>throw\<close> carries: a plain \<open>Error\<close> (also what the HTTP library rejects
  with), the engine's \<open>TypeError\<close> and \<open>URIError\<close>, and the protocol's
  \<open>McpError\<close>. The message text of the engine's own errors is engine specific, and
  no \<open>catch\<close> of this program ever receives an \<open>McpError\<close>.
\<close>

datatype exn =
    Error jsstring
  | TypeError jsstring
  | URIError jsstring
  | McpError error_code jsstring

fun message :: "exn \<Rightarrow> jsstring" where
  "message (Error m) = m"
| "message (TypeError m) = m"
| "message (URIError m) = m"
| "message (McpError c m) = m"

text \<open>The idiom \<open>error?.message || 'Unknown error'\<close>.\<close>

definition message_or_unknown :: "exn \<Rightarrow> jsstring" where
  "message_or_unknown e = (if message e = [] then str ''Unknown error'' else message e)"

text \<open>Truthiness, as \<open>if (x)\<close>, \<open>!x\<close>, \<open>&&\<close> and \<open>||\<close> test it.\<close>

fun truthy :: "jsval \<Rightarrow> bool" where
  "truthy JUndefined = False"
| "truthy JNull = False"
| "truthy (JBool b) = b"
| "truthy (JNum n) = (n \<noteq> str ''0'' \<and> n \<noteq> str ''NaN'')"
| "truthy (JStr s) = (s \<noteq> [])"
| "truthy (JArr xs) = True"
| "truthy (JObj kvs) = True"

fun typeof :: "jsval \<Rightarrow> jsstring" where
  "typeof JUndefined = str ''undefined''"
| "typeof JNull = str ''object''"
| "typeof (JBool b) = str ''boolean''"
| "typeof (JNum n) = str ''number''"
| "typeof (JStr s) = str ''string''"
| "typeof (JArr xs) = str ''object''"
| "typeof (JObj kvs) = str ''object''"

text \<open>Decimal digits of a natural number, most significant first.\<close>

fun digits :: "nat \<Rightarrow> jsstring" where
  "digits n = (if n < 10 then [48 + n] else digits (n div 10) @ [48 + n mod 10])"

declare digits.simps [simp del]

fun sequence :: "(exn + 'a) list \<Rightarrow> exn + 'a list" where
  "sequence [] = Inr []"
| "sequence (Inl e # rs) = Inl e"
| "sequence (Inr x # rs) = (case sequence rs of Inl e \<Rightarrow> Inl e | Inr xs \<Rightarrow> Inr (x # xs))"

fun join :: "jsstring \<Rightarrow> jsstring list \<Rightarrow> jsstring" where
  "join sep [] = []"
| "join sep [s] = s"
| "join sep (s # t # ss) = s @ sep @ join sep (t # ss)"

text \<open>
  \<open>ToString\<close>, as \<open>String(x)\<close>, a template literal and \<open>x.toString()\<close> on a value
  that is neither \<open>null\<close> nor \<open>undefined\<close> compute it. An array joins its elements
  with commas, \<open>null\<close> and \<open>undefined\<close> elements giving the empty string. An object
  parsed from JSON prints as \<open>[object Object]\<close>, unless it has an own property
  \<open>toString\<close>: that property is not callable, and the conversion throws.
\<close>

fun js_toString :: "jsval \<Rightarrow> exn + jsstring" where
  "js_toString JUndefined = Inr (str ''undefined'')"
| "js_toString JNull = Inr (str ''null'')"
| "js_toString (JBool b) = Inr (if b then str ''true'' else str ''false'')"
| "js_toString (JNum n) = Inr n"
| "js_toString (JStr s) = Inr s"
| "js_toString (JArr xs) =
     (case sequence (map (\<lambda>x. if x = JUndefined \<or> x = JNull then Inr [] else js_toString x) xs) of
        Inl e \<Rightarrow> Inl e
      | Inr ss \<Rightarrow> Inr (join (str '','') ss))"
| "js_toString (JObj kvs) =
     (if str ''toString'' \<in> set (map fst kvs)
      then Inl (TypeError (str ''Cannot convert object to primitive value''))
      else Inr (str ''[object Object]''))"

text \<open>
  Own enumerable properties: an array's and a string's are their indices. The key list
  of \<open>Object.keys\<close> is the first components; it throws on \<open>null\<close> and
  \<open>undefined\<close>.
\<close>

fun own_props :: "jsval \<Rightarrow> (jsstring \<times> jsval) list" where
  "own_props (JObj kvs) = kvs"
| "own_props (JArr xs) = zip (map digits [0..<length xs]) xs"
| "own_props (JStr s) = zip (map digits [0..<length s]) (map (\<lambda>c. JStr [c]) s)"
| "own_props v = []"

definition object_keys :: "jsval \<Rightarrow> exn + jsstring list" where
  "object_keys v =
     (if v = JUndefined \<or> v = JNull
      then Inl (TypeError (str ''Cannot convert undefined or null to object''))
      else Inr (map fst (own_props v)))"

text \<open>
  Reading a property, \<open>v.k\<close> or \<open>v[k]\<close>: a \<open>TypeError\<close> on \<open>null\<close> and
  \<open>undefined\<close>, the own property if there is one, the length of an array or a string,
  and \<open>undefined\<close> otherwise. The names the program reads (\<open>data\<close>, \<open>name\<close>,
  \<open>results\<close>, \<open>value\<close>, \<open>message\<close>, \<open>length\<close>, index 0 and a record's own keys)
  are inherited from no prototype, \<open>length\<close> apart.
\<close>

definition get_prop :: "jsval \<Rightarrow> jsstring \<Rightarrow> exn + jsval" where
  "get_prop v k =
     (if v = JUndefined \<or> v = JNull
      then Inl (TypeError (str ''Cannot read properties of undefined or null''))
      else Inr (case map_of (own_props v) k of
                  Some x \<Rightarrow> x
                | None \<Rightarrow>
                    if k = str ''length''
                    then (case v of JArr xs \<Rightarrow> JNum (digits (length xs))
                          | JStr s \<Rightarrow> JNum (digits (length s))
                          | _ \<Rightarrow> JUndefined)
                    else JUndefined))"

section \<open>Library functions the program calls\<close>

text \<open>
  \<open>s.replace(/\/$/, '')\<close>: without the \<open>m\<close> flag \<open>$\<close> matches at the end of the
  input only, so the call removes one final slash, if there is one.
\<close>

definition strip_trailing_slash :: "jsstring \<Rightarrow> jsstring" where
  "strip_trailing_slash s = (if s \<noteq> [] \<and> last s = 47 then butlast s else s)"

text \<open>
  \<open>uri.match(/^erpnext:\/\/([^\/]+)\/(.+)$/)\<close>, giving the two captures. The first
  group cannot cross a slash and a slash must follow it, so it is the text up to the
  first slash; the second group is the rest, up to the end of the input. The dot matches
  no line terminator (LF, CR, U+2028, U+2029).
\<close>

definition line_terminator :: "nat \<Rightarrow> bool" where
  "line_terminator c = (c = 10 \<or> c = 13 \<or> c = 8232 \<or> c = 8233)"

definition match_document_uri :: "jsstring \<Rightarrow> (jsstring \<times> jsstring) option" where
  "match_document_uri uri =
     (let p = str ''erpnext://'' in
      if take (length p) uri \<noteq> p then None
      else
        let rest = drop (length p) uri;
            g1 = takeWhile (\<lambda>c. c \<noteq> 47) rest
        in case dropWhile (\<lambda>c. c \<noteq> 47) rest of
             [] \<Rightarrow> None
           | slash # g2 \<Rightarrow>
               if g1 \<noteq> [] \<and> g2 \<noteq> [] \<and> list_all (\<lambda>c. \<not> line_terminator c) g2
               then Some (g1, g2) else None)"

text \<open>
  \<open>decodeURIComponent\<close>, in two passes with the same outcome as the standard's single
  loop: every \<open>%XX\<close> becomes an octet (a \<open>%\<close> without two hexadecimal digits is
  malformed), then each octet below 128 is a code unit and each other octet must start a
  well-formed UTF-8 sequence of escaped octets, whose code point is written in UTF-16.
\<close>

definition hex_digit :: "nat \<Rightarrow> nat option" where
  "hex_digit c =
     (if 48 \<le> c \<and> c \<le> 57 then Some (c - 48)
      else if 65 \<le> c \<and> c \<le> 70 then Some (c - 55)
      else if 97 \<le> c \<and> c \<le> 102 then Some (c - 87)
      else None)"

datatype token = Unit nat | Octet nat

fun percent_tokens :: "jsstring \<Rightarrow> token list option" where
  "percent_tokens [] = Some []"
| "percent_tokens (c # cs) =
     (if c \<noteq> 37 then map_option (Cons (Unit c)) (percent_tokens cs)
      else case cs of
             h1 # h2 # rest \<Rightarrow>
               (case (hex_digit h1, hex_digit h2) of
                  (Some a, Some b) \<Rightarrow> map_option (Cons (Octet (16 * a + b))) (percent_tokens rest)
                | _ \<Rightarrow> None)
           | _ \<Rightarrow> None)"

definition continuation :: "nat \<Rightarrow> bool" where
  "continuation b = (128 \<le> b \<and> b < 192)"

definition utf16 :: "nat \<Rightarrow> jsstring" where
  "utf16 v = (if v < 65536 then [v]
              else [55296 + (v - 65536) div 1024, 56320 + (v - 65536) mod 1024])"

text \<open>
  The second pass carries the sequence being read: how many continuation octets are still
  due, the bits read so far and the least code point a sequence of that length may encode.
\<close>

fun utf8_assemble :: "(nat \<times> nat \<times> nat) option \<Rightarrow> token list \<Rightarrow> jsstring option" where
  "utf8_assemble None [] = Some []"
| "utf8_assemble (Some p) [] = None"
| "utf8_assemble None (Unit c # ts) = map_option (Cons c) (utf8_assemble None ts)"
| "utf8_assemble (Some p) (Unit c # ts) = None"
| "utf8_assemble None (Octet b # ts) =
     (if b < 128 then map_option (Cons b) (utf8_assemble None ts)
      else if 192 \<le> b \<and> b < 224 then utf8_assemble (Some (1, b - 192, 128)) ts
      else if 224 \<le> b \<and> b < 240 then utf8_assemble (Some (2, b - 224, 2048)) ts
      else if 240 \<le> b \<and> b < 248 then utf8_assemble (Some (3, b - 240, 65536)) ts
      else None)"
| "utf8_assemble (Some (n, acc, lo)) (Octet b # ts) =
     (if \<not> continuation b then None
      else
        let v = acc * 64 + (b - 128) in
        if 1 < n then utf8_assemble (Some (n - 1, v, lo)) ts
        else if lo \<le> v \<and> v \<le> 1114111 \<and> \<not> (55296 \<le> v \<and> v \<le> 57343)
        then map_option (append (utf16 v)) (utf8_assemble None ts)
        else None)"

definition decodeURIComponent :: "jsstring \<Rightarrow> exn + jsstring" where
  "decodeURIComponent s =
     (case percent_tokens s of
        None \<Rightarrow> Inl (URIError (str ''URI malformed''))
      | Some ts \<Rightarrow>
          (case utf8_assemble None ts of
             None \<Rightarrow> Inl (URIError (str ''URI malformed''))
           | Some r \<Rightarrow> Inr r))"

section \<open>The backend and the program state\<close>

text \<open>
  A request as the HTTP library receives it: the instance's base URL and default headers,
  the method, the path, the query parameters in insertion order and the body.
  \<open>JSON.stringify\<close> is kept symbolic: \<open>Stringified v\<close> is the text of \<open>v\<close>,
  \<open>Plain v\<close> is \<open>v\<close> itself.
\<close>

datatype http_method = GET | POST | PUT

datatype param = Stringified jsval | Plain jsval

record request =
  req_method :: http_method
  req_baseURL :: jsstring
  req_headers :: "(jsstring \<times> jsstring) list"
  req_url :: jsstring
  req_params :: "(jsstring \<times> param) list"
  req_body :: "jsval option"

text \<open>
  What the program does to the world, in order: the requests it sends and the lines it
  writes with \<open>console.error\<close>.
\<close>

datatype event = HttpRequest request | ConsoleError jsstring jsstring

text \<open>
  The backend is a black box: its answer to a request may depend on everything that
  happened before. \<open>Inl m\<close> is a rejected call (network failure, a status that is not a
  success) with message \<open>m\<close>; \<open>Inr body\<close> is a response whose \<open>data\<close> is \<open>body\<close>.
\<close>

type_synonym backend = "event list \<Rightarrow> request \<Rightarrow> jsstring + jsval"

record client =
  baseUrl :: jsstring
  headers :: "(jsstring \<times> jsstring) list"
  authenticated :: bool

text \<open>The state: the module-level client \<open>erpnext\<close> and the history of effects.\<close>

record state =
  erpnext :: client
  history :: "event list"

type_synonym 'a io = "state \<Rightarrow> (exn + 'a) \<times> state"

definition io_return :: "'a \<Rightarrow> 'a io" where
  "io_return x = (\<lambda>s. (Inr x, s))"

definition io_throw :: "exn \<Rightarrow> 'a io" where
  "io_throw e = (\<lambda>s. (Inl e, s))"

definition io_bind :: "'a io \<Rightarrow> ('a \<Rightarrow> 'b io) \<Rightarrow> 'b io" where
  "io_bind m f = (\<lambda>s. case m s of (Inl e, s') \<Rightarrow> (Inl e, s') | (Inr x, s') \<Rightarrow> f x s')"

definition try_catch :: "'a io \<Rightarrow> (exn \<Rightarrow> 'a io) \<Rightarrow> 'a io" where
  "try_catch m h = (\<lambda>s. case m s of (Inl e, s') \<Rightarrow> h e s' | (Inr x, s') \<Rightarrow> (Inr x, s'))"

definition lift :: "exn + 'a \<Rightarrow> 'a io" where
  "lift r = (\<lambda>s. (r, s))"

definition console_error :: "jsstring \<Rightarrow> jsstring \<Rightarrow> unit io" where
  "console_error label m = (\<lambda>s. (Inr (), s\<lparr>history := history s @ [ConsoleError label m]\<rparr>))"

text \<open>The request an instance configured as the client \<open>c\<close> sends.\<close>

definition request_of ::
  "client \<Rightarrow> http_method \<Rightarrow> jsstring \<Rightarrow> (jsstring \<times> param) list \<Rightarrow> jsval option \<Rightarrow> request" where
  "request_of c m url ps body =
     \<lparr>req_method = m, req_baseURL = baseUrl c, req_headers = headers c, req_url = url,
      req_params = ps, req_body = body\<rparr>"

text \<open>
  One call of the HTTP instance: the request is recorded, and the call resolves with the
  response's \<open>data\<close> or rejects with an error.
\<close>

definition axios_request ::
  "backend \<Rightarrow> http_method \<Rightarrow> jsstring \<Rightarrow> (jsstring \<times> param) list \<Rightarrow> jsval option \<Rightarrow> jsval io" where
  "axios_request b m url ps body =
     (\<lambda>s. let r = request_of (erpnext s) m url ps body
          in ((case b (history s) r of Inl msg \<Rightarrow> Inl (Error msg) | Inr d \<Rightarrow> Inr d),
              s\<lparr>history := history s @ [HttpRequest r]\<rparr>))"

section \<open>ERPNextClient\<close>

record env =
  ERPNEXT_URL :: "jsstring option"
  ERPNEXT_API_KEY :: "jsstring option"
  ERPNEXT_API_SECRET :: "jsstring option"

text \<open>An environment variable is truthy when it is set and not empty.\<close>

definition env_truthy :: "jsstring option \<Rightarrow> bool" where
  "env_truthy v = (case v of None \<Rightarrow> False | Some x \<Rightarrow> x \<noteq> [])"

definition new_ERPNextClient :: "env \<Rightarrow> exn + client" where
  "new_ERPNextClient e =
     (let url = (if env_truthy (ERPNEXT_URL e) then the (ERPNEXT_URL e) else []) in
      if url = [] then Inl (Error (str ''ERPNEXT_URL environment variable is required''))
      else
        let base = strip_trailing_slash url;
            hs = [(str ''Content-Type'', str ''application/json''),
                  (str ''Accept'', str ''application/json'')]
        in if env_truthy (ERPNEXT_API_KEY e) \<and> env_truthy (ERPNEXT_API_SECRET e)
           then Inr \<lparr>baseUrl = base,
                     headers = hs @ [(str ''Authorization'',
                        str ''token '' @ the (ERPNEXT_API_KEY e) @ str '':'' @ the (ERPNEXT_API_SECRET e))],
                     authenticated = True\<rparr>
           else Inr \<lparr>baseUrl = base, headers = hs, authenticated = False\<rparr>)"

definition isAuthenticated :: "bool io" where
  "isAuthenticated = (\<lambda>s. (Inr (authenticated (erpnext s)), s))"

definition getDocument_path :: "jsstring \<Rightarrow> jsstring \<Rightarrow> jsstring" where
  "getDocument_path doctype name = str ''/api/resource/'' @ doctype @ str ''/'' @ name"

definition getDocument :: "backend \<Rightarrow> jsstring \<Rightarrow> jsstring \<Rightarrow> jsval io" where
  "getDocument b doctype name =
     try_catch
       (io_bind (axios_request b GET (getDocument_path doctype name) [] None)
          (\<lambda>data. lift (get_prop data (str ''data''))))
       (\<lambda>error. io_throw (Error (str ''Failed to get '' @ doctype @ str '' '' @ name @ str '': ''
                                   @ message_or_unknown error)))"

text \<open>
  The query parameters of \<open>getDocList\<close>: \<open>fields && fields.length\<close>, \<open>filters\<close> and
  \<open>limit\<close> are tested for truthiness, on whatever values the caller passed.
\<close>

definition getDocList_params :: "jsval \<Rightarrow> jsval \<Rightarrow> jsval \<Rightarrow> (jsstring \<times> param) list" where
  "getDocList_params filters fields' limit =
     (if truthy fields' \<and> (case get_prop fields' (str ''length'') of Inr n \<Rightarrow> truthy n | Inl e \<Rightarrow> False)
      then [(str ''fields'', Stringified fields')] else [])
     @ (if truthy filters then [(str ''filters'', Stringified filters)] else [])
     @ (if truthy limit then [(str ''limit_page_length'', Plain limit)] else [])"

definition getDocList_path :: "jsstring \<Rightarrow> jsstring" where
  "getDocList_path doctype = str ''/api/resource/'' @ doctype"

definition getDocList :: "backend \<Rightarrow> jsstring \<Rightarrow> jsval \<Rightarrow> jsval \<Rightarrow> jsval \<Rightarrow> jsval io" where
  "getDocList b doctype filters fields' limit =
     try_catch
       (io_bind (axios_request b GET (getDocList_path doctype)
                   (getDocList_params filters fields' limit) None)
          (\<lambda>data. lift (get_prop data (str ''data''))))
       (\<lambda>error. io_throw (Error (str ''Failed to get '' @ doctype @ str '' list: ''
                                   @ message_or_unknown error)))"

definition createDocument :: "backend \<Rightarrow> jsstring \<Rightarrow> jsval \<Rightarrow> jsval io" where
  "createDocument b doctype doc =
     try_catch
       (io_bind (axios_request b POST (getDocList_path doctype) []
                   (Some (JObj [(str ''data'', doc)])))
          (\<lambda>data. lift (get_prop data (str ''data''))))
       (\<lambda>error. io_throw (Error (str ''Failed to create '' @ doctype @ str '': ''
                                   @ message_or_unknown error)))"

definition updateDocument :: "backend \<Rightarrow> jsstring \<Rightarrow> jsstring \<Rightarrow> jsval \<Rightarrow> jsval io" where
  "updateDocument b doctype name doc =
     try_catch
       (io_bind (axios_request b PUT (getDocument_path doctype name) []
                   (Some (JObj [(str ''data'', doc)])))
          (\<lambda>data. lift (get_prop data (str ''data''))))
       (\<lambda>error. io_throw (Error (str ''Failed to update '' @ doctype @ str '' '' @ name @ str '': ''
                                   @ message_or_unknown error)))"

definition runReport_path :: jsstring where
  "runReport_path = str ''/api/method/frappe.desk.query_report.run''"

definition runReport :: "backend \<Rightarrow> jsstring \<Rightarrow> jsval \<Rightarrow> jsval io" where
  "runReport b reportName filters =
     try_catch
       (io_bind (axios_request b GET runReport_path
                   [(str ''report_name'', Plain (JStr reportName)),
                    (str ''filters'', if truthy filters then Stringified filters else Plain JUndefined)]
                   None)
          (\<lambda>data. lift (get_prop data (str ''message''))))
       (\<lambda>error. io_throw (Error (str ''Failed to run report '' @ reportName @ str '': ''
                                   @ message_or_unknown error)))"

text \<open>
  \<open>xs.map((item) => item.k)\<close>: only an array has \<open>map\<close> among the values JSON can
  carry, and reading \<open>k\<close> from a \<open>null\<close> element throws.
\<close>

definition map_prop :: "jsval \<Rightarrow> jsstring \<Rightarrow> exn + jsval list" where
  "map_prop v k =
     (case v of
        JArr xs \<Rightarrow> sequence (map (\<lambda>item. get_prop item k) xs)
      | _ \<Rightarrow> Inl (TypeError (str ''map is not a function'')))"

definition common_doctypes :: "jsval list" where
  "common_doctypes = map (\<lambda>n. JStr (str n))
     [''Customer'', ''Supplier'', ''Item'', ''Sales Order'', ''Purchase Order'',
      ''Sales Invoice'', ''Purchase Invoice'', ''Employee'', ''Lead'', ''Opportunity'',
      ''Quotation'', ''Payment Entry'', ''Journal Entry'', ''Stock Entry'']"

definition primary_doctypes_path :: jsstring where
  "primary_doctypes_path = str ''/api/resource/DocType''"

definition primary_doctypes_params :: "(jsstring \<times> param) list" where
  "primary_doctypes_params =
     [(str ''fields'', Stringified (JArr [JStr (str ''name'')])),
      (str ''limit_page_length'', Plain (JNum (str ''500'')))]"

definition search_link_path :: jsstring where
  "search_link_path = str ''/api/method/frappe.desk.search.search_link''"

definition search_link_params :: "(jsstring \<times> param) list" where
  "search_link_params =
     [(str ''doctype'', Plain (JStr (str ''DocType''))),
      (str ''txt'', Plain (JStr [])),
      (str ''limit'', Plain (JNum (str ''500'')))]"

text \<open>
  What a \<open>try\<close> of \<open>getAllDocTypes\<close> does with a response:
  \<open>if (r.data && r.data.k) return r.data.k.map((item) => item.f); return []\<close>.
\<close>

definition listed :: "jsval \<Rightarrow> jsstring \<Rightarrow> jsstring \<Rightarrow> exn + jsval list" where
  "listed data k f =
     (if \<not> truthy data then Inr []
      else case get_prop data k of
             Inl e \<Rightarrow> Inl e
           | Inr rows \<Rightarrow> if truthy rows then map_prop rows f else Inr [])"

definition doctypes_attempt ::
  "backend \<Rightarrow> jsstring \<Rightarrow> (jsstring \<times> param) list \<Rightarrow> jsstring \<Rightarrow> jsstring \<Rightarrow> jsval list io" where
  "doctypes_attempt b path ps k f =
     io_bind (axios_request b GET path ps None) (\<lambda>data. lift (listed data k f))"

definition getAllDocTypes :: "backend \<Rightarrow> jsval list io" where
  "getAllDocTypes b =
     try_catch
       (doctypes_attempt b primary_doctypes_path primary_doctypes_params (str ''data'') (str ''name''))
       (\<lambda>error.
          io_bind (console_error (str ''Failed to get DocTypes:'') (message_or_unknown error))
            (\<lambda>_. try_catch
                    (doctypes_attempt b search_link_path search_link_params
                       (str ''results'') (str ''value''))
                    (\<lambda>altError.
                       io_bind (console_error (str ''Alternative DocType fetch failed:'')
                                  (message_or_unknown altError))
                         (\<lambda>_. io_return common_doctypes))))"

section \<open>The request handlers\<close>

text \<open>
  The text of a reply, with \<open>JSON.stringify(v, null, 2)\<close> kept symbolic as
  \<open>PrettyJson v\<close>: a reply's text is the concatenation of its pieces.
\<close>

datatype piece = Lit jsstring | PrettyJson jsval

record resource_contents =
  contents_uri :: jsstring
  contents_mimeType :: jsstring
  contents_text :: "piece list"

record tool_result =
  content_text :: "piece list"
  isError :: bool

definition not_authenticated :: jsstring where
  "not_authenticated =
     str ''Not authenticated with ERPNext. Please configure API key authentication.''"

definition error_result :: "jsstring \<Rightarrow> tool_result" where
  "error_result m = \<lparr>content_text = [Lit m], isError = True\<rparr>"

definition doctypes_uri :: jsstring where
  "doctypes_uri = str ''erpnext://DocTypes''"

definition read_resource :: "backend \<Rightarrow> jsstring \<Rightarrow> resource_contents io" where
  "read_resource b uri =
     io_bind isAuthenticated (\<lambda>auth.
       if \<not> auth then io_throw (McpError InvalidRequest not_authenticated)
       else
         io_bind
           (if uri = doctypes_uri then
              try_catch
                (io_bind (getAllDocTypes b)
                   (\<lambda>doctypes. io_return (JObj [(str ''doctypes'', JArr doctypes)])))
                (\<lambda>error. io_throw (McpError InternalError
                             (str ''Failed to fetch DocTypes: '' @ message_or_unknown error)))
            else
              (case match_document_uri uri of
                 None \<Rightarrow> io_return JUndefined
               | Some (g1, g2) \<Rightarrow>
                   io_bind (lift (decodeURIComponent g1)) (\<lambda>doctype.
                   io_bind (lift (decodeURIComponent g2)) (\<lambda>name.
                     try_catch (getDocument b doctype name)
                       (\<lambda>error. io_throw (McpError InvalidRequest
                          (str ''Failed to fetch '' @ doctype @ str '' '' @ name @ str '': ''
                           @ message_or_unknown error)))))))
           (\<lambda>result.
              if \<not> truthy result
              then io_throw (McpError InvalidRequest (str ''Invalid ERPNext resource URI: '' @ uri))
              else io_return \<lparr>contents_uri = uri,
                               contents_mimeType = str ''application/json'',
                               contents_text = [PrettyJson result]\<rparr>))"

text \<open>\<open>request.params.arguments?.k\<close>: the arguments are an object, or absent.\<close>

definition arg :: "(jsstring \<times> jsval) list option \<Rightarrow> jsstring \<Rightarrow> jsval" where
  "arg args k =
     (case args of
        None \<Rightarrow> JUndefined
      | Some kvs \<Rightarrow> (case map_of kvs k of None \<Rightarrow> JUndefined | Some v \<Rightarrow> v))"

definition tool_get_documents :: "backend \<Rightarrow> (jsstring \<times> jsval) list option \<Rightarrow> tool_result io" where
  "tool_get_documents b args =
     io_bind isAuthenticated (\<lambda>auth.
       if \<not> auth then io_return (error_result not_authenticated)
       else
         io_bind (lift (js_toString (arg args (str ''doctype'')))) (\<lambda>doctype.
           if doctype = [] then io_throw (McpError InvalidParams (str ''Doctype is required''))
           else
             try_catch
               (io_bind (getDocList b doctype (arg args (str ''filters''))
                           (arg args (str ''fields'')) (arg args (str ''limit'')))
                  (\<lambda>documents. io_return \<lparr>content_text = [PrettyJson documents], isError = False\<rparr>))
               (\<lambda>error. io_return (error_result
                  (str ''Failed to get '' @ doctype @ str '' documents: ''
                   @ message_or_unknown error)))))"

definition tool_create_document :: "backend \<Rightarrow> (jsstring \<times> jsval) list option \<Rightarrow> tool_result io" where
  "tool_create_document b args =
     io_bind isAuthenticated (\<lambda>auth.
       if \<not> auth then io_return (error_result not_authenticated)
       else
         io_bind (lift (js_toString (arg args (str ''doctype'')))) (\<lambda>doctype.
           let data = arg args (str ''data'') in
           if doctype = [] \<or> \<not> truthy data
           then io_throw (McpError InvalidParams (str ''Doctype and data are required''))
           else
             try_catch
               (io_bind (createDocument b doctype data) (\<lambda>result.
                io_bind (lift (get_prop result (str ''name''))) (\<lambda>result_name.
                io_bind (lift (js_toString result_name)) (\<lambda>shown.
                  io_return \<lparr>content_text =
                               [Lit (str ''Created '' @ doctype @ str '': '' @ shown @ [10, 10]),
                                PrettyJson result],
                             isError = False\<rparr>))))
               (\<lambda>error. io_return (error_result
                  (str ''Failed to create '' @ doctype @ str '': '' @ message_or_unknown error)))))"

definition tool_update_document :: "backend \<Rightarrow> (jsstring \<times> jsval) list option \<Rightarrow> tool_result io" where
  "tool_update_document b args =
     io_bind isAuthenticated (\<lambda>auth.
       if \<not> auth then io_return (error_result not_authenticated)
       else
         io_bind (lift (js_toString (arg args (str ''doctype'')))) (\<lambda>doctype.
         io_bind (lift (js_toString (arg args (str ''name'')))) (\<lambda>name.
           let data = arg args (str ''data'') in
           if doctype = [] \<or> name = [] \<or> \<not> truthy data
           then io_throw (McpError InvalidParams (str ''Doctype, name, and data are required''))
           else
             try_catch
               (io_bind (updateDocument b doctype name data) (\<lambda>result.
                  io_return \<lparr>content_text =
                               [Lit (str ''Updated '' @ doctype @ str '' '' @ name @ [10, 10]),
                                PrettyJson result],
                             isError = False\<rparr>))
               (\<lambda>error. io_return (error_result
                  (str ''Failed to update '' @ doctype @ str '' '' @ name @ str '': ''
                   @ message_or_unknown error))))))"

definition tool_run_report :: "backend \<Rightarrow> (jsstring \<times> jsval) list option \<Rightarrow> tool_result io" where
  "tool_run_report b args =
     io_bind isAuthenticated (\<lambda>auth.
       if \<not> auth then io_return (error_result not_authenticated)
       else
         io_bind (lift (js_toString (arg args (str ''report_name'')))) (\<lambda>reportName.
           if reportName = [] then io_throw (McpError InvalidParams (str ''Report name is required''))
           else
             try_catch
               (io_bind (runReport b reportName (arg args (str ''filters'')))
                  (\<lambda>result. io_return \<lparr>content_text = [PrettyJson result], isError = False\<rparr>))
               (\<lambda>error. io_return (error_result
                  (str ''Failed to run report '' @ reportName @ str '': ''
                   @ message_or_unknown error)))))"

text \<open>
  \<open>v?.toString()?.substring(0, 50) || null\<close>: \<open>null\<close> for a value that is \<open>null\<close>
  or \<open>undefined\<close> and for one whose text is empty.
\<close>

definition sample_of :: "jsval \<Rightarrow> exn + jsval" where
  "sample_of v =
     (if v = JUndefined \<or> v = JNull then Inr JNull
      else case js_toString v of
             Inl e \<Rightarrow> Inl e
           | Inr s \<Rightarrow> Inr (if take 50 s = [] then JNull else JStr (take 50 s)))"

definition field_descriptor :: "jsval \<Rightarrow> jsstring \<Rightarrow> exn + jsval" where
  "field_descriptor sampleDoc field =
     (case get_prop sampleDoc field of
        Inl e \<Rightarrow> Inl e
      | Inr v \<Rightarrow>
          (case sample_of v of
             Inl e \<Rightarrow> Inl e
           | Inr smp \<Rightarrow> Inr (JObj [(str ''fieldname'', JStr field),
                                   (str ''value'', JStr (typeof v)),
                                   (str ''sample'', smp)])))"

definition describe_fields :: "jsval \<Rightarrow> exn + jsval" where
  "describe_fields sampleDoc =
     (case object_keys sampleDoc of
        Inl e \<Rightarrow> Inl e
      | Inr ks \<Rightarrow>
          (case sequence (map (field_descriptor sampleDoc) ks) of
             Inl e \<Rightarrow> Inl e
           | Inr ds \<Rightarrow> Inr (JArr ds)))"

definition no_documents :: "jsstring \<Rightarrow> jsstring" where
  "no_documents doctype =
     str ''No documents found for '' @ doctype @ str ''. Cannot determine fields.''"

definition tool_get_doctype_fields :: "backend \<Rightarrow> (jsstring \<times> jsval) list option \<Rightarrow> tool_result io" where
  "tool_get_doctype_fields b args =
     io_bind isAuthenticated (\<lambda>auth.
       if \<not> auth then io_return (error_result not_authenticated)
       else
         io_bind (lift (js_toString (arg args (str ''doctype'')))) (\<lambda>doctype.
           if doctype = [] then io_throw (McpError InvalidParams (str ''Doctype is required''))
           else
             try_catch
               (io_bind (getDocList b doctype (JObj []) (JArr [JStr (str ''*'')]) (JNum (str ''1'')))
                  (\<lambda>documents.
                     if \<not> truthy documents \<or> get_prop documents (str ''length'') = Inr (JNum (str ''0''))
                     then io_return (error_result (no_documents doctype))
                     else
                       io_bind (lift (get_prop documents (str ''0''))) (\<lambda>sampleDoc.
                       io_bind (lift (describe_fields sampleDoc)) (\<lambda>descriptors.
                         io_return \<lparr>content_text = [PrettyJson descriptors], isError = False\<rparr>))))
               (\<lambda>error. io_return (error_result
                  (str ''Failed to get fields for '' @ doctype @ str '': ''
                   @ message_or_unknown error)))))"

definition tool_get_doctypes :: "backend \<Rightarrow> tool_result io" where
  "tool_get_doctypes b =
     io_bind isAuthenticated (\<lambda>auth.
       if \<not> auth then io_return (error_result not_authenticated)
       else
         try_catch
           (io_bind (getAllDocTypes b)
              (\<lambda>doctypes. io_return \<lparr>content_text = [PrettyJson (JArr doctypes)], isError = False\<rparr>))
           (\<lambda>error. io_return (error_result
              (str ''Failed to get DocTypes: '' @ message_or_unknown error))))"

definition call_tool :: "backend \<Rightarrow> jsstring \<Rightarrow> (jsstring \<times> jsval) list option \<Rightarrow> tool_result io" where
  "call_tool b name args =
     (if name = str ''get_documents'' then tool_get_documents b args
      else if name = str ''create_document'' then tool_create_document b args
      else if name = str ''update_document'' then tool_update_document b args
      else if name = str ''run_report'' then tool_run_report b args
      else if name = str ''get_doctype_fields'' then tool_get_doctype_fields b args
      else if name = str ''get_doctypes'' then tool_get_doctypes b
      else io_throw (McpError MethodNotFound (str ''Unknown tool: '' @ name)))"

text \<open>
  Everything that can run against the client after its construction: its own methods and
  the two handlers that use it. \<open>perform\<close> runs one of them and keeps the state it
  leaves; \<open>perform_all\<close> runs a sequence.
\<close>

datatype operation =
    IsAuthenticated
  | GetDocument jsstring jsstring
  | GetDocList jsstring jsval jsval jsval
  | CreateDocument jsstring jsval
  | UpdateDocument jsstring jsstring jsval
  | RunReport jsstring jsval
  | GetAllDocTypes
  | ReadResource jsstring
  | CallTool jsstring "(jsstring \<times> jsval) list option"

fun perform :: "backend \<Rightarrow> operation \<Rightarrow> state \<Rightarrow> state" where
  "perform b IsAuthenticated s = snd (isAuthenticated s)"
| "perform b (GetDocument d n) s = snd (getDocument b d n s)"
| "perform b (GetDocList d f fs l) s = snd (getDocList b d f fs l s)"
| "perform b (CreateDocument d doc) s = snd (createDocument b d doc s)"
| "perform b (UpdateDocument d n doc) s = snd (updateDocument b d n doc s)"
| "perform b (RunReport r f) s = snd (runReport b r f s)"
| "perform b GetAllDocTypes s = snd (getAllDocTypes b s)"
| "perform b (ReadResource uri) s = snd (read_resource b uri s)"
| "perform b (CallTool name args) s = snd (call_tool b name args s)"

fun perform_all :: "backend \<Rightarrow> operation list \<Rightarrow> state \<Rightarrow> state" where
  "perform_all b [] s = s"
| "perform_all b (x # xs) s = perform_all b xs (perform b x s)"

section \<open>Notions used in the statements\<close>

text \<open>The names of the six tools.\<close>

definition tool_names :: "jsstring list" where
  "tool_names = map str [''get_documents'', ''create_document'', ''update_document'',
                         ''run_report'', ''get_doctype_fields'', ''get_doctypes'']"

text \<open>The events an operation adds to a history.\<close>

definition new_events :: "state \<Rightarrow> state \<Rightarrow> event list" where
  "new_events s s' = drop (length (history s)) (history s')"

text \<open>A computation that leaves the client as it found it.\<close>

definition keeps_client :: "'a io \<Rightarrow> bool" where
  "keeps_client m = (\<forall>s. erpnext (snd (m s)) = erpnext s)"

text \<open>
  An optional parameter of a declared type: \<open>undefined\<close> when the argument is omitted.
\<close>

definition optional :: "('a \<Rightarrow> jsval) \<Rightarrow> 'a option \<Rightarrow> jsval" where
  "optional f x = (case x of None \<Rightarrow> JUndefined | Some v \<Rightarrow> f v)"

text \<open>The state after one more request.\<close>

definition sent :: "state \<Rightarrow> request \<Rightarrow> state" where
  "sent s r = s\<lparr>history := history s @ [HttpRequest r]\<rparr>"

text \<open>The state after one more line on the diagnostic stream.\<close>

definition logged :: "state \<Rightarrow> jsstring \<Rightarrow> jsstring \<Rightarrow> state" where
  "logged s l m = s\<lparr>history := history s @ [ConsoleError l m]\<rparr>"

text \<open>The two requests of \<open>getAllDocTypes\<close>, as the client \<open>c\<close> sends them.\<close>

definition primary_request :: "client \<Rightarrow> request" where
  "primary_request c = request_of c GET primary_doctypes_path primary_doctypes_params None"

definition alternate_request :: "client \<Rightarrow> request" where
  "alternate_request c = request_of c GET search_link_path search_link_params None"

text \<open>
  What a \<open>try\<close> block of \<open>getAllDocTypes\<close> comes to when its request \<open>r\<close> is sent
  after the history \<open>h\<close>: \<open>Inl\<close> when the request fails or reading the response
  throws, \<open>Inr\<close> with the list it returns otherwise.
\<close>

definition tier :: "backend \<Rightarrow> event list \<Rightarrow> request \<Rightarrow> jsstring \<Rightarrow> jsstring \<Rightarrow> exn + jsval list" where
  "tier b h r k f = (case b h r of Inl msg \<Rightarrow> Inl (Error msg) | Inr data \<Rightarrow> listed data k f)"

definition primary_tier :: "backend \<Rightarrow> state \<Rightarrow> exn + jsval list" where
  "primary_tier b s = tier b (history s) (primary_request (erpnext s)) (str ''data'') (str ''name'')"

definition after_primary_failure :: "state \<Rightarrow> exn \<Rightarrow> state" where
  "after_primary_failure s e =
     logged (sent s (primary_request (erpnext s))) (str ''Failed to get DocTypes:'') (message_or_unknown e)"

definition alternate_tier :: "backend \<Rightarrow> state \<Rightarrow> exn \<Rightarrow> exn + jsval list" where
  "alternate_tier b s e =
     tier b (history (after_primary_failure s e)) (alternate_request (erpnext s))
       (str ''results'') (str ''value'')"

text \<open>
  A response whose rows under \<open>k\<close>, if it has an array there, each carry a string
  under \<open>f\<close>.
\<close>

definition is_string :: "jsval \<Rightarrow> bool" where
  "is_string v = (case v of JStr t \<Rightarrow> True | _ \<Rightarrow> False)"

definition string_rows :: "jsval \<Rightarrow> jsstring \<Rightarrow> jsstring \<Rightarrow> bool" where
  "string_rows data k f =
     (case get_prop data k of
        Inr (JArr rows) \<Rightarrow>
          list_all (\<lambda>row. case get_prop row f of Inr v \<Rightarrow> is_string v | Inl e \<Rightarrow> False) rows
      | _ \<Rightarrow> True)"

text \<open>
  A document URI: \<open>erpnext://\<close>, a first segment that is not empty and has no slash,
  a slash, and a rest that is not empty and has no line terminator.
\<close>

definition document_uri :: "jsstring \<Rightarrow> jsstring \<Rightarrow> jsstring \<Rightarrow> bool" where
  "document_uri uri g1 g2 =
     (uri = str ''erpnext://'' @ g1 @ str ''/'' @ g2
      \<and> g1 \<noteq> [] \<and> 47 \<notin> set g1
      \<and> g2 \<noteq> [] \<and> list_all (\<lambda>c. \<not> line_terminator c) g2)"

text \<open>A string with two slashes in a row.\<close>

fun doubled_slash :: "jsstring \<Rightarrow> bool" where
  "doubled_slash (a # b # cs) = ((a = 47 \<and> b = 47) \<or> doubled_slash (b # cs))"
| "doubled_slash cs = False"

text \<open>The operations that are methods of the client, not handlers.\<close>

fun client_method :: "operation \<Rightarrow> bool" where
  "client_method (ReadResource uri) = False"
| "client_method (CallTool name args) = False"
| "client_method x = True"

text \<open>
  When the doctype and name put a doubled slash into \<open>/api/resource/{doctype}/{name}\<close>:
  the doctype is empty, begins or ends with a slash, the name begins with a slash, or one
  of them has a doubled slash itself.
\<close>

definition document_path_clash :: "jsstring \<Rightarrow> jsstring \<Rightarrow> bool" where
  "document_path_clash d n =
     (d = [] \<or> hd d = 47 \<or> last d = 47 \<or> doubled_slash d
      \<or> (n \<noteq> [] \<and> hd n = 47) \<or> doubled_slash n)"

text \<open>
  When the doctype puts a doubled slash into \<open>/api/resource/{doctype}\<close>: it begins with
  a slash or has a doubled slash itself.
\<close>

definition list_path_clash :: "jsstring \<Rightarrow> bool" where
  "list_path_clash d = ((d \<noteq> [] \<and> hd d = 47) \<or> doubled_slash d)"

text \<open>The operations whose arguments put a doubled slash into their request path.\<close>

fun brings_doubled_slash :: "operation \<Rightarrow> bool" where
  "brings_doubled_slash (GetDocument d n) = document_path_clash d n"
| "brings_doubled_slash (UpdateDocument d n doc) = document_path_clash d n"
| "brings_doubled_slash (GetDocList d f fs l) = list_path_clash d"
| "brings_doubled_slash (CreateDocument d doc) = list_path_clash d"
| "brings_doubled_slash x = False"

text \<open>A value whose conversion to a string does not throw, and the string it gives.\<close>

definition printable :: "jsval \<Rightarrow> bool" where
  "printable v = (case js_toString v of Inr t \<Rightarrow> True | Inl e \<Rightarrow> False)"

definition shown :: "jsval \<Rightarrow> jsstring" where
  "shown v = (case js_toString v of Inr t \<Rightarrow> t | Inl e \<Rightarrow> [])"

text \<open>
  The descriptor of a field \<open>k\<close> with value \<open>v\<close>: its name, \<open>typeof v\<close>, and as
  sample the first 50 code units of the text of \<open>v\<close>, or \<open>null\<close> when \<open>v\<close> is
  \<open>null\<close> or \<open>undefined\<close> or its text is empty.
\<close>

definition descriptor :: "jsstring \<Rightarrow> jsval \<Rightarrow> jsval" where
  "descriptor k v =
     JObj [(str ''fieldname'', JStr k),
           (str ''value'', JStr (typeof v)),
           (str ''sample'',
            if v = JUndefined \<or> v = JNull \<or> shown v = [] then JNull
            else JStr (take 50 (shown v)))]"

text \<open>The request \<open>getDocList(doctype, {}, ["*"], 1)\<close> sends.\<close>

definition sample_request :: "client \<Rightarrow> jsstring \<Rightarrow> request" where
  "sample_request c doctype =
     request_of c GET (str ''/api/resource/'' @ doctype)
       [(str ''fields'', Stringified (JArr [JStr (str ''*'')])),
        (str ''filters'', Stringified (JObj [])),
        (str ''limit_page_length'', Plain (JNum (str ''1'')))] None"

text \<open>
  Rows on which \<open>rows.map((item) => item.f)\<close> throws: a truthy value that is not an
  array, or an array with a \<open>null\<close> or \<open>undefined\<close> element.
\<close>

definition unreadable_rows :: "jsval \<Rightarrow> bool" where
  "unreadable_rows rows =
     (truthy rows \<and>
      (case rows of JArr xs \<Rightarrow> list_ex (\<lambda>x. x = JUndefined \<or> x = JNull) xs | _ \<Rightarrow> True))"

text \<open>
  A tool result flagged \<open>isError\<close> whose text is
  \<open>Failed to get fields for {doctype}: \<close> followed by the message of the error caught.
\<close>

definition failed_to_get_fields :: "jsstring \<Rightarrow> tool_result \<Rightarrow> bool" where
  "failed_to_get_fields doctype res =
     (isError res
      \<and> (\<exists>m. content_text res
                = [Lit (str ''Failed to get fields for '' @ doctype @ str '': '' @ m)]))"

text \<open>
  A list of documents that is not empty to the handler's test and yet has no first element,
  or \<open>null\<close> as first element: \<open>[null]\<close>, or an object such as \<open>{}\<close> in place of
  the array.
\<close>

definition no_first_element :: "jsval \<Rightarrow> bool" where
  "no_first_element documents =
     (truthy documents
      \<and> get_prop documents (str ''length'') \<noteq> Inr (JNum (str ''0''))
      \<and> (get_prop documents (str ''0'') = Inr JUndefined
           \<or> get_prop documents (str ''0'') = Inr JNull))"

section \<open>The monad, evaluated\<close>

lemma io_return_apply [simp]: "io_return x s = (Inr x, s)"
  by (simp add: io_return_def)

lemma io_throw_apply [simp]: "io_throw e s = (Inl e, s)"
  by (simp add: io_throw_def)

lemma lift_apply [simp]: "lift r s = (r, s)"
  by (simp add: lift_def)

lemma isAuthenticated_apply [simp]: "isAuthenticated s = (Inr (authenticated (erpnext s)), s)"
  by (simp add: isAuthenticated_def)

lemma io_bind_Inr: "m s = (Inr x, s') \<Longrightarrow> io_bind m f s = f x s'"
  by (simp add: io_bind_def)

lemma io_bind_Inl: "m s = (Inl e, s') \<Longrightarrow> io_bind m f s = (Inl e, s')"
  by (simp add: io_bind_def)

lemma try_catch_Inr: "m s = (Inr x, s') \<Longrightarrow> try_catch m h s = (Inr x, s')"
  by (simp add: try_catch_def)

lemma try_catch_Inl: "m s = (Inl e, s') \<Longrightarrow> try_catch m h s = h e s'"
  by (simp add: try_catch_def)

lemma io_bind_isAuthenticated [simp]:
  "io_bind isAuthenticated f s = f (authenticated (erpnext s)) s"
  by (simp add: io_bind_def)

section \<open>The client is never modified\<close>

lemma keeps_client_return [simp]: "keeps_client (io_return x)"
  by (simp add: keeps_client_def)

lemma keeps_client_throw [simp]: "keeps_client (io_throw e)"
  by (simp add: keeps_client_def)

lemma keeps_client_lift [simp]: "keeps_client (lift r)"
  by (simp add: keeps_client_def)

lemma keeps_client_isAuthenticated [simp]: "keeps_client isAuthenticated"
  by (simp add: keeps_client_def)

lemma keeps_client_console_error [simp]: "keeps_client (console_error l m)"
  by (simp add: keeps_client_def console_error_def)

lemma keeps_client_axios_request [simp]: "keeps_client (axios_request b m url ps body)"
  by (simp add: keeps_client_def axios_request_def Let_def)

lemma keeps_client_bind [intro]:
  assumes "keeps_client m" and "\<And>x. keeps_client (f x)"
  shows "keeps_client (io_bind m f)"
proof (unfold keeps_client_def, rule allI)
  fix s
  obtain r s' where ms: "m s = (r, s')" by (cases "m s")
  from assms(1) ms have c: "erpnext s' = erpnext s"
    by (auto simp: keeps_client_def dest: spec [where x = s])
  show "erpnext (snd (io_bind m f s)) = erpnext s"
  proof (cases r)
    case (Inl e)
    with ms c show ?thesis by (simp add: io_bind_def)
  next
    case (Inr x)
    from assms(2) [of x] have "erpnext (snd (f x s')) = erpnext s'"
      by (simp add: keeps_client_def)
    with Inr ms c show ?thesis by (simp add: io_bind_def)
  qed
qed

lemma keeps_client_try_catch [intro]:
  assumes "keeps_client m" and "\<And>e. keeps_client (h e)"
  shows "keeps_client (try_catch m h)"
proof (unfold keeps_client_def, rule allI)
  fix s
  obtain r s' where ms: "m s = (r, s')" by (cases "m s")
  from assms(1) ms have c: "erpnext s' = erpnext s"
    by (auto simp: keeps_client_def dest: spec [where x = s])
  show "erpnext (snd (try_catch m h s)) = erpnext s"
  proof (cases r)
    case (Inl e)
    from assms(2) [of e] have "erpnext (snd (h e s')) = erpnext s'"
      by (simp add: keeps_client_def)
    with Inl ms c show ?thesis by (simp add: try_catch_def)
  next
    case (Inr x)
    with ms c show ?thesis by (simp add: try_catch_def)
  qed
qed

lemma keeps_client_if [intro]:
  "keeps_client m \<Longrightarrow> keeps_client n \<Longrightarrow> keeps_client (if c then m else n)"
  by simp

lemma keeps_client_getDocument [simp]: "keeps_client (getDocument b d n)"
  unfolding getDocument_def by (intro keeps_client_try_catch keeps_client_bind) simp_all

lemma keeps_client_getDocList [simp]: "keeps_client (getDocList b d f fs l)"
  unfolding getDocList_def by (intro keeps_client_try_catch keeps_client_bind) simp_all

lemma keeps_client_createDocument [simp]: "keeps_client (createDocument b d doc)"
  unfolding createDocument_def by (intro keeps_client_try_catch keeps_client_bind) simp_all

lemma keeps_client_updateDocument [simp]: "keeps_client (updateDocument b d n doc)"
  unfolding updateDocument_def by (intro keeps_client_try_catch keeps_client_bind) simp_all

lemma keeps_client_runReport [simp]: "keeps_client (runReport b r f)"
  unfolding runReport_def by (intro keeps_client_try_catch keeps_client_bind) simp_all

lemma keeps_client_doctypes_attempt [simp]: "keeps_client (doctypes_attempt b path ps k f)"
  unfolding doctypes_attempt_def by (intro keeps_client_bind) simp_all

lemma keeps_client_getAllDocTypes [simp]: "keeps_client (getAllDocTypes b)"
  unfolding getAllDocTypes_def by (intro keeps_client_try_catch keeps_client_bind) simp_all

lemma keeps_client_read_resource [simp]: "keeps_client (read_resource b uri)"
  unfolding read_resource_def
  by (intro keeps_client_try_catch keeps_client_bind keeps_client_if)
     (simp_all split: option.split prod.split, intro allI impI keeps_client_try_catch keeps_client_bind, simp_all)

lemma keeps_client_tool_get_documents [simp]: "keeps_client (tool_get_documents b args)"
  unfolding tool_get_documents_def Let_def
  by (intro keeps_client_try_catch keeps_client_bind keeps_client_if) simp_all

lemma keeps_client_tool_create_document [simp]: "keeps_client (tool_create_document b args)"
  unfolding tool_create_document_def Let_def
  by (intro keeps_client_try_catch keeps_client_bind keeps_client_if) simp_all

lemma keeps_client_tool_update_document [simp]: "keeps_client (tool_update_document b args)"
  unfolding tool_update_document_def Let_def
  by (intro keeps_client_try_catch keeps_client_bind keeps_client_if) simp_all

lemma keeps_client_tool_run_report [simp]: "keeps_client (tool_run_report b args)"
  unfolding tool_run_report_def Let_def
  by (intro keeps_client_try_catch keeps_client_bind keeps_client_if) simp_all

lemma keeps_client_tool_get_doctype_fields [simp]: "keeps_client (tool_get_doctype_fields b args)"
  unfolding tool_get_doctype_fields_def Let_def
  by (intro keeps_client_try_catch keeps_client_bind keeps_client_if) simp_all

lemma keeps_client_tool_get_doctypes [simp]: "keeps_client (tool_get_doctypes b)"
  unfolding tool_get_doctypes_def Let_def
  by (intro keeps_client_try_catch keeps_client_bind keeps_client_if) simp_all

lemma keeps_client_call_tool [simp]: "keeps_client (call_tool b name args)"
  unfolding call_tool_def by simp

lemma perform_keeps_client: "erpnext (perform b x s) = erpnext s"
proof (cases x)
  case IsAuthenticated
  then show ?thesis by simp
next
  case (GetDocument d n)
  then show ?thesis using keeps_client_getDocument [of b d n] by (simp add: keeps_client_def)
next
  case (GetDocList d f fs l)
  then show ?thesis using keeps_client_getDocList [of b d f fs l] by (simp add: keeps_client_def)
next
  case (CreateDocument d doc)
  then show ?thesis using keeps_client_createDocument [of b d doc] by (simp add: keeps_client_def)
next
  case (UpdateDocument d n doc)
  then show ?thesis using keeps_client_updateDocument [of b d n doc] by (simp add: keeps_client_def)
next
  case (RunReport r f)
  then show ?thesis using keeps_client_runReport [of b r f] by (simp add: keeps_client_def)
next
  case GetAllDocTypes
  then show ?thesis using keeps_client_getAllDocTypes [of b] by (simp add: keeps_client_def)
next
  case (ReadResource uri)
  then show ?thesis using keeps_client_read_resource [of b uri] by (simp add: keeps_client_def)
next
  case (CallTool name args)
  then show ?thesis using keeps_client_call_tool [of b name args] by (simp add: keeps_client_def)
qed

lemma perform_all_keeps_client: "erpnext (perform_all b xs s) = erpnext s"
  by (induction xs arbitrary: s) (simp_all add: perform_keeps_client)

section \<open>The authenticated flag\<close>

lemma new_client_authenticated:
  "new_ERPNextClient e = Inr c \<Longrightarrow>
   authenticated c = (env_truthy (ERPNEXT_API_KEY e) \<and> env_truthy (ERPNEXT_API_SECRET e))"
  by (auto simp: new_ERPNextClient_def Let_def split: if_splits)



section \<open>The authentication gate\<close>

text \<open>
  Claim C2. While the client is not authenticated, a call of any of the six tools, with
  any arguments, returns the tool result flagged \<open>isError\<close> that carries the
  explanatory message, and a read of any resource raises a protocol-level
  \<open>InvalidRequest\<close> error. Both leave the state as it was: no request was sent, so none
  of the client's operations ran.
\<close>

theorem unauthenticated_requests_stop_at_the_gate:
  assumes "\<not> authenticated (erpnext s)" and "name \<in> set tool_names"
  shows "call_tool b name args s
           = (Inr \<lparr>content_text = [Lit not_authenticated], isError = True\<rparr>, s)
         \<and> read_resource b uri s = (Inl (McpError InvalidRequest not_authenticated), s)"
  using assms
  by (auto simp: tool_names_def call_tool_def tool_get_documents_def tool_create_document_def
      tool_update_document_def tool_run_report_def tool_get_doctype_fields_def
      tool_get_doctypes_def read_resource_def error_result_def)

theorem unauthenticated_requests_stop_at_the_gate_witness:
  "call_tool (\<lambda>h r. Inr JNull) (str ''create_document'')
       (Some [(str ''doctype'', JStr (str ''Customer'')), (str ''data'', JObj [])])
       \<lparr>erpnext = \<lparr>baseUrl = str ''http://erp.example.com'', headers = [], authenticated = False\<rparr>,
        history = []\<rparr>
     = (Inr \<lparr>content_text = [Lit not_authenticated], isError = True\<rparr>,
        \<lparr>erpnext = \<lparr>baseUrl = str ''http://erp.example.com'', headers = [], authenticated = False\<rparr>,
         history = []\<rparr>)
   \<and> read_resource (\<lambda>h r. Inr JNull) (str ''erpnext://Item/ITEM-001'')
       \<lparr>erpnext = \<lparr>baseUrl = str ''http://erp.example.com'', headers = [], authenticated = False\<rparr>,
        history = []\<rparr>
     = (Inl (McpError InvalidRequest not_authenticated),
        \<lparr>erpnext = \<lparr>baseUrl = str ''http://erp.example.com'', headers = [], authenticated = False\<rparr>,
         history = []\<rparr>)"
  using unauthenticated_requests_stop_at_the_gate
    [of "\<lparr>erpnext = \<lparr>baseUrl = str ''http://erp.example.com'', headers = [], authenticated = False\<rparr>,
          history = []\<rparr>" "str ''create_document''"]
  by (simp add: tool_names_def)

section \<open>What the client methods send\<close>

lemma axios_request_apply:
  "axios_request b m url ps body s =
     ((case b (history s) (request_of (erpnext s) m url ps body) of
         Inl msg \<Rightarrow> Inl (Error msg) | Inr d \<Rightarrow> Inr d),
      sent s (request_of (erpnext s) m url ps body))"
  by (simp add: axios_request_def Let_def sent_def)

lemma snd_getDocList:
  "snd (getDocList b d f fs l s)
     = sent s (request_of (erpnext s) GET (getDocList_path d) (getDocList_params f fs l) None)"
  by (simp add: getDocList_def try_catch_def io_bind_def axios_request_apply
      split: sum.split prod.split)

lemma snd_getDocument:
  "snd (getDocument b d n s) = sent s (request_of (erpnext s) GET (getDocument_path d n) [] None)"
  by (simp add: getDocument_def try_catch_def io_bind_def axios_request_apply
      split: sum.split prod.split)

lemma snd_createDocument:
  "snd (createDocument b d doc s)
     = sent s (request_of (erpnext s) POST (getDocList_path d) [] (Some (JObj [(str ''data'', doc)])))"
  by (simp add: createDocument_def try_catch_def io_bind_def axios_request_apply
      split: sum.split prod.split)

lemma snd_updateDocument:
  "snd (updateDocument b d n doc s)
     = sent s (request_of (erpnext s) PUT (getDocument_path d n) [] (Some (JObj [(str ''data'', doc)])))"
  by (simp add: updateDocument_def try_catch_def io_bind_def axios_request_apply
      split: sum.split prod.split)

lemma snd_runReport:
  "snd (runReport b r f s)
     = sent s (request_of (erpnext s) GET runReport_path
                 [(str ''report_name'', Plain (JStr r)),
                  (str ''filters'', if truthy f then Stringified f else Plain JUndefined)] None)"
  by (simp add: runReport_def try_catch_def io_bind_def axios_request_apply
      split: sum.split prod.split)

section \<open>Reading properties\<close>

lemma digits_range: "x \<in> set (digits n) \<Longrightarrow> 48 \<le> x \<and> x \<le> 57"
proof (induction n rule: digits.induct)
  case (1 n)
  show ?case
  proof (cases "n < 10")
    case True
    with "1.prems" show ?thesis by (simp add: digits.simps [of n])
  next
    case False
    with "1.prems" have "x \<in> set (digits (n div 10)) \<or> x = 48 + n mod 10"
      by (auto simp: digits.simps [of n])
    with "1.IH" False show ?thesis by auto
  qed
qed

lemma length_not_index: "str ''length'' \<noteq> digits n"
proof
  assume "str ''length'' = digits n"
  then have "108 \<in> set (digits n)" by (simp add: str_def flip: set_ConsD) (metis list.set_intros(1))
  then show False using digits_range [of 108 n] by simp
qed

lemma map_of_indices_length [simp]:
  "map_of (zip (map digits is) vs) (str ''length'') = None"
  by (induction "is" arbitrary: vs) (auto simp: length_not_index zip_Cons1 split: list.split)

lemma digits_not_empty: "digits n \<noteq> []"
  by (subst digits.simps) simp

lemma digits_zero [simp]: "digits 0 = str ''0''"
  by (simp add: digits.simps [of 0] str_def)

lemma digits_eq_zero [simp]: "digits n = str ''0'' \<longleftrightarrow> n = 0"
  by (subst digits.simps) (auto simp: str_def digits_not_empty)

lemma digits_not_NaN [simp]: "digits n \<noteq> str ''NaN''"
proof
  assume "digits n = str ''NaN''"
  then have "78 \<in> set (digits n)" by (simp add: str_def)
  then show False using digits_range [of 78 n] by simp
qed

lemma get_prop_length_array [simp]:
  "get_prop (JArr xs) (str ''length'') = Inr (JNum (digits (length xs)))"
  by (simp add: get_prop_def)

lemma get_prop_length_string [simp]:
  "get_prop (JStr t) (str ''length'') = Inr (JNum (digits (length t)))"
  by (simp add: get_prop_def)

lemma get_prop_object [simp]:
  "get_prop (JObj kvs) k = Inr (case map_of kvs k of Some v \<Rightarrow> v | None \<Rightarrow> JUndefined)"
  by (simp add: get_prop_def split: option.split)

lemma get_prop_first [simp]: "get_prop (JArr (x # xs)) (str ''0'') = Inr x"
  by (simp add: get_prop_def upt_conv_Cons str_def digits.simps [of 0] del: upt_Suc)

section \<open>The query parameters of getDocList\<close>

lemma getDocList_params_typed:
  "getDocList_params (optional JObj filters) (optional (\<lambda>fs. JArr (map JStr fs)) fields') (optional JNum limit)
     = (case fields' of Some (f # fs) \<Rightarrow> [(str ''fields'', Stringified (JArr (map JStr (f # fs))))] | _ \<Rightarrow> [])
       @ (case filters of Some kvs \<Rightarrow> [(str ''filters'', Stringified (JObj kvs))] | None \<Rightarrow> [])
       @ (case limit of Some n \<Rightarrow> if n = str ''0'' \<or> n = str ''NaN'' then [] else [(str ''limit_page_length'', Plain (JNum n))] | None \<Rightarrow> [])"
  by (simp add: getDocList_params_def optional_def split: option.split list.split)

lemma limit_zero: "getDocList b doctype filters fields' (JNum (str ''0'')) = getDocList b doctype filters fields' JUndefined"
  by (simp add: getDocList_def getDocList_params_def)

text \<open>
  Claim C5. For every call \<open>getDocList(doctype, filters?, fields?, limit?)\<close> with
  arguments of the declared types, the call sends exactly one request, a \<open>GET\<close> of
  \<open>/api/resource/{doctype}\<close>, whose query parameters are these and no others:
  \<open>fields\<close>, the JSON text of the array, present exactly when the argument is given and
  not empty; \<open>filters\<close>, the JSON text of the object, present exactly when the argument
  is given; \<open>limit_page_length\<close>, present exactly when the limit is given and truthy,
  that is neither \<open>0\<close> nor \<open>NaN\<close>. A call with limit 0 is the same computation as the
  call without a limit.
\<close>

theorem getDocList_query_parameters:
  "\<exists>r. snd (getDocList b doctype (optional JObj filters)
              (optional (\<lambda>fs. JArr (map JStr fs)) fields') (optional JNum limit) s)
          = s\<lparr>history := history s @ [HttpRequest r]\<rparr>
      \<and> req_method r = GET
      \<and> req_url r = str ''/api/resource/'' @ doctype
      \<and> map_of (req_params r) (str ''fields'')
          = (case fields' of Some (f # fs) \<Rightarrow> Some (Stringified (JArr (map JStr (f # fs)))) | _ \<Rightarrow> None)
      \<and> map_of (req_params r) (str ''filters'')
          = (case filters of Some kvs \<Rightarrow> Some (Stringified (JObj kvs)) | None \<Rightarrow> None)
      \<and> map_of (req_params r) (str ''limit_page_length'')
          = (case limit of Some n \<Rightarrow> if n = str ''0'' \<or> n = str ''NaN'' then None else Some (Plain (JNum n)) | None \<Rightarrow> None)
      \<and> set (map fst (req_params r)) \<subseteq> {str ''fields'', str ''filters'', str ''limit_page_length''}
      \<and> getDocList b doctype (optional JObj filters) (optional (\<lambda>fs. JArr (map JStr fs)) fields')
            (optional JNum (Some (str ''0'')))
          = getDocList b doctype (optional JObj filters) (optional (\<lambda>fs. JArr (map JStr fs)) fields')
              (optional JNum None)"
proof -
  let ?r = "request_of (erpnext s) GET (getDocList_path doctype)
      (getDocList_params (optional JObj filters) (optional (\<lambda>fs. JArr (map JStr fs)) fields')
         (optional JNum limit)) None"
  have z: "getDocList b doctype (optional JObj filters) (optional (\<lambda>fs. JArr (map JStr fs)) fields')
            (optional JNum (Some (str ''0'')))
          = getDocList b doctype (optional JObj filters) (optional (\<lambda>fs. JArr (map JStr fs)) fields')
              (optional JNum None)"
    by (simp add: optional_def limit_zero)
  have k: "str ''fields'' \<noteq> str ''filters''" "str ''fields'' \<noteq> str ''limit_page_length''"
    "str ''filters'' \<noteq> str ''limit_page_length''"
    by (simp_all add: str_def)
  have "snd (getDocList b doctype (optional JObj filters)
              (optional (\<lambda>fs. JArr (map JStr fs)) fields') (optional JNum limit) s)
          = s\<lparr>history := history s @ [HttpRequest ?r]\<rparr>
      \<and> req_method ?r = GET
      \<and> req_url ?r = str ''/api/resource/'' @ doctype"
    by (simp add: snd_getDocList sent_def request_of_def getDocList_path_def)
  moreover have "map_of (req_params ?r) (str ''fields'')
          = (case fields' of Some (f # fs) \<Rightarrow> Some (Stringified (JArr (map JStr (f # fs)))) | _ \<Rightarrow> None)"
    using k by (simp add: request_of_def getDocList_params_typed split: option.split list.split)
  moreover have "map_of (req_params ?r) (str ''filters'')
          = (case filters of Some kvs \<Rightarrow> Some (Stringified (JObj kvs)) | None \<Rightarrow> None)"
    using k by (simp add: request_of_def getDocList_params_typed split: option.split list.split)
  moreover have "map_of (req_params ?r) (str ''limit_page_length'')
          = (case limit of Some n \<Rightarrow> if n = str ''0'' \<or> n = str ''NaN'' then None else Some (Plain (JNum n))
             | None \<Rightarrow> None)"
    using k by (simp add: request_of_def getDocList_params_typed split: option.split list.split)
  moreover have "set (map fst (req_params ?r))
          \<subseteq> {str ''fields'', str ''filters'', str ''limit_page_length''}"
    by (auto simp: request_of_def getDocList_params_typed split: option.split list.split)
  ultimately show ?thesis using z by blast
qed

theorem getDocList_query_parameters_witness:
  "\<exists>r. snd (getDocList (\<lambda>h r. Inr JNull) (str ''Customer'') (optional JObj None)
              (optional (\<lambda>fs. JArr (map JStr fs)) (Some [str ''name'']))
              (optional JNum (Some (str ''0'')))
              \<lparr>erpnext = \<lparr>baseUrl = [], headers = [], authenticated = True\<rparr>, history = []\<rparr>)
          = \<lparr>erpnext = \<lparr>baseUrl = [], headers = [], authenticated = True\<rparr>,
             history = [HttpRequest r]\<rparr>
      \<and> req_method r = GET
      \<and> req_url r = str ''/api/resource/Customer''
      \<and> map_of (req_params r) (str ''fields'') = Some (Stringified (JArr [JStr (str ''name'')]))
      \<and> map_of (req_params r) (str ''filters'') = None
      \<and> map_of (req_params r) (str ''limit_page_length'') = None"
  using getDocList_query_parameters
    [of "\<lambda>h r. Inr JNull" "str ''Customer''" None "Some [str ''name'']" "Some (str ''0'')"
        "\<lparr>erpnext = \<lparr>baseUrl = [], headers = [], authenticated = True\<rparr>, history = []\<rparr>"]
  by (auto simp: str_def)

section \<open>Required arguments\<close>

lemma get_documents_without_doctype:
  assumes "authenticated (erpnext s)" and "arg args (str ''doctype'') = JUndefined"
  shows "tool_get_documents b args s
     = (case getDocList b (str ''undefined'') (arg args (str ''filters''))
               (arg args (str ''fields'')) (arg args (str ''limit'')) s of
          (Inr documents, s') \<Rightarrow> (Inr \<lparr>content_text = [PrettyJson documents], isError = False\<rparr>, s')
        | (Inl error, s') \<Rightarrow>
            (Inr (error_result (str ''Failed to get undefined documents: '' @ message_or_unknown error)), s'))"
  using assms
  by (simp add: tool_get_documents_def io_bind_def try_catch_def str_def split: prod.split sum.split)

text \<open>
  Claim C1, at an input where the code departs from it. On an authenticated client, a
  \<open>get_documents\<close> call whose arguments omit \<open>doctype\<close> raises nothing:
  \<open>String(undefined)\<close> is the text \<open>undefined\<close>, which is not empty, so the
  check \<open>if (!doctype)\<close> passes and \<open>getDocList\<close> asks the backend for
  \<open>/api/resource/undefined\<close>. The same conversion guards \<open>doctype\<close>,
  \<open>name\<close> and \<open>report_name\<close> in the other tools; only a missing \<open>data\<close>,
  which is not converted, is rejected.
\<close>

theorem missing_doctype_reaches_backend:
  "call_tool (\<lambda>h r. Inr (JObj [(str ''data'', JArr [])])) (str ''get_documents'') (Some [])
     \<lparr>erpnext = \<lparr>baseUrl = str ''http://erp.example.com'', headers = [], authenticated = True\<rparr>,
      history = []\<rparr>
   = (Inr \<lparr>content_text = [PrettyJson (JArr [])], isError = False\<rparr>,
      \<lparr>erpnext = \<lparr>baseUrl = str ''http://erp.example.com'', headers = [], authenticated = True\<rparr>,
       history = [HttpRequest \<lparr>req_method = GET, req_baseURL = str ''http://erp.example.com'',
                    req_headers = [], req_url = str ''/api/resource/undefined'',
                    req_params = [], req_body = None\<rparr>]\<rparr>)"
  by (simp add: call_tool_def get_documents_without_doctype arg_def getDocList_def
      getDocList_params_def getDocList_path_def try_catch_def io_bind_def axios_request_apply
      sent_def request_of_def)
     (simp add: str_def)

section \<open>The tiers of getAllDocTypes\<close>

lemma doctypes_attempt_apply:
  "doctypes_attempt b path ps k f s
     = (tier b (history s) (request_of (erpnext s) GET path ps None) k f,
        sent s (request_of (erpnext s) GET path ps None))"
  by (simp add: doctypes_attempt_def io_bind_def axios_request_apply tier_def split: sum.split)

lemma console_error_apply [simp]: "console_error l m s = (Inr (), logged s l m)"
  by (simp add: console_error_def logged_def)

lemma erpnext_sent [simp]: "erpnext (sent s r) = erpnext s"
  by (simp add: sent_def)

lemma erpnext_logged [simp]: "erpnext (logged s l m) = erpnext s"
  by (simp add: logged_def)

lemma getAllDocTypes_apply:
  "getAllDocTypes b s =
     (case primary_tier b s of
        Inr xs \<Rightarrow> (Inr xs, sent s (primary_request (erpnext s)))
      | Inl e1 \<Rightarrow>
          (case alternate_tier b s e1 of
             Inr ys \<Rightarrow> (Inr ys, sent (after_primary_failure s e1) (alternate_request (erpnext s)))
           | Inl e2 \<Rightarrow>
               (Inr common_doctypes,
                logged (sent (after_primary_failure s e1) (alternate_request (erpnext s)))
                  (str ''Alternative DocType fetch failed:'') (message_or_unknown e2))))"
  by (simp add: getAllDocTypes_def try_catch_def io_bind_def doctypes_attempt_apply
      primary_tier_def alternate_tier_def after_primary_failure_def primary_request_def
      alternate_request_def split: sum.split)

lemma getAllDocTypes_returns: "\<exists>xs s'. getAllDocTypes b s = (Inr xs, s')"
  by (simp add: getAllDocTypes_apply split: sum.split)

lemma sequence_map_Inr [simp]: "sequence (map Inr xs) = Inr xs"
  by (induction xs) simp_all

lemma sequence_Inr_iff:
  "sequence rs = Inr xs \<longleftrightarrow> rs = map Inr xs"
proof (induction rs arbitrary: xs)
  case Nil
  then show ?case by auto
next
  case (Cons r rs)
  then show ?case by (cases r) (auto split: sum.splits)
qed

lemma listed_strings:
  assumes "string_rows data k f" and "listed data k f = Inr xs"
  shows "list_all is_string xs"
proof (cases "truthy data")
  case False
  with assms(2) show ?thesis by (simp add: listed_def)
next
  case True
  then obtain rows where g: "get_prop data k = Inr rows"
    by (cases data) (auto simp: get_prop_def)
  show ?thesis
  proof (cases "truthy rows")
    case False
    with True g assms(2) show ?thesis by (simp add: listed_def)
  next
    case t: True
    with True g assms(2) have m: "map_prop rows f = Inr xs" by (simp add: listed_def)
    then obtain rs where rows: "rows = JArr rs" by (cases rows) (auto simp: map_prop_def)
    with m have "map (\<lambda>item. get_prop item f) rs = map Inr xs"
      by (simp add: map_prop_def sequence_Inr_iff)
    moreover from assms(1) g rows
    have "list_all (\<lambda>row. case get_prop row f of Inr v \<Rightarrow> is_string v | Inl e \<Rightarrow> False) rs"
      by (simp add: string_rows_def)
    ultimately show ?thesis
    proof (induction rs arbitrary: xs)
      case Nil
      then show ?case by simp
    next
      case (Cons r rs)
      then show ?case by (cases xs) auto
    qed
  qed
qed


text \<open>
  Claim C3, amended. \<open>getAllDocTypes\<close> never raises. It sends the primary listing
  request first; when that \<open>try\<close> block yields a list, the list is returned and nothing
  else is sent. Only when it throws is the search-link request sent, with its fixed
  parameters, after the failure is logged; when that tier yields a list, the list is
  returned. Only when both throw is the fixed list of 14 names returned, exactly. The
  result is always a sequence; it is a sequence of strings when every row the backend
  sends carries a string \<open>name\<close>, respectively \<open>value\<close> (the code passes on whatever the
  rows carry).
\<close>

theorem getAllDocTypes_tiers:
  "(\<exists>xs. fst (getAllDocTypes b s) = Inr xs)
   \<and> (\<forall>xs. primary_tier b s = Inr xs \<longrightarrow>
          getAllDocTypes b s = (Inr xs, sent s (primary_request (erpnext s))))
   \<and> (\<forall>e1 ys. primary_tier b s = Inl e1 \<and> alternate_tier b s e1 = Inr ys \<longrightarrow>
          getAllDocTypes b s
            = (Inr ys, sent (after_primary_failure s e1) (alternate_request (erpnext s))))
   \<and> (\<forall>e1 e2. primary_tier b s = Inl e1 \<and> alternate_tier b s e1 = Inl e2 \<longrightarrow>
          getAllDocTypes b s
            = (Inr (map (\<lambda>n. JStr (str n))
                     [''Customer'', ''Supplier'', ''Item'', ''Sales Order'', ''Purchase Order'',
                      ''Sales Invoice'', ''Purchase Invoice'', ''Employee'', ''Lead'',
                      ''Opportunity'', ''Quotation'', ''Payment Entry'', ''Journal Entry'',
                      ''Stock Entry'']),
               logged (sent (after_primary_failure s e1) (alternate_request (erpnext s)))
                 (str ''Alternative DocType fetch failed:'') (message_or_unknown e2)))
   \<and> ((\<forall>h r data. b h r = Inr data \<longrightarrow>
           string_rows data (str ''data'') (str ''name'')
           \<and> string_rows data (str ''results'') (str ''value'')) \<longrightarrow>
        (\<forall>xs. fst (getAllDocTypes b s) = Inr xs \<longrightarrow> list_all is_string xs))"
proof (intro conjI allI impI)
  show "\<exists>xs. fst (getAllDocTypes b s) = Inr xs"
    using getAllDocTypes_returns [of b s] by auto
next
  fix xs assume "primary_tier b s = Inr xs"
  then show "getAllDocTypes b s = (Inr xs, sent s (primary_request (erpnext s)))"
    by (simp add: getAllDocTypes_apply)
next
  fix e1 ys assume "primary_tier b s = Inl e1 \<and> alternate_tier b s e1 = Inr ys"
  then show "getAllDocTypes b s
            = (Inr ys, sent (after_primary_failure s e1) (alternate_request (erpnext s)))"
    by (simp add: getAllDocTypes_apply)
next
  fix e1 e2 assume "primary_tier b s = Inl e1 \<and> alternate_tier b s e1 = Inl e2"
  then show "getAllDocTypes b s
            = (Inr (map (\<lambda>n. JStr (str n))
                     [''Customer'', ''Supplier'', ''Item'', ''Sales Order'', ''Purchase Order'',
                      ''Sales Invoice'', ''Purchase Invoice'', ''Employee'', ''Lead'',
                      ''Opportunity'', ''Quotation'', ''Payment Entry'', ''Journal Entry'',
                      ''Stock Entry'']),
               logged (sent (after_primary_failure s e1) (alternate_request (erpnext s)))
                 (str ''Alternative DocType fetch failed:'') (message_or_unknown e2))"
    by (simp add: getAllDocTypes_apply common_doctypes_def)
next
  fix xs
  assume typed: "\<forall>h r data. b h r = Inr data \<longrightarrow>
           string_rows data (str ''data'') (str ''name'')
           \<and> string_rows data (str ''results'') (str ''value'')"
    and res: "fst (getAllDocTypes b s) = Inr xs"
  have t: "list_all is_string ys" if "tier b h r k f = Inr ys"
    and "(k, f) = (str ''data'', str ''name'') \<or> (k, f) = (str ''results'', str ''value'')"
    for h r k f ys
  proof -
    from that(1) obtain data where d: "b h r = Inr data" and l: "listed data k f = Inr ys"
      by (auto simp: tier_def split: sum.splits)
    from typed d that(2) have "string_rows data k f" by auto
    with l show ?thesis by (rule listed_strings [rotated])
  qed
  have c: "list_all is_string common_doctypes"
    by (simp add: common_doctypes_def is_string_def)
  from res show "list_all is_string xs"
    using t [of "history s" "primary_request (erpnext s)" "str ''data''" "str ''name''"]
      t [of _ "alternate_request (erpnext s)" "str ''results''" "str ''value''"] c
    by (auto simp: getAllDocTypes_apply primary_tier_def alternate_tier_def split: sum.splits)
qed

theorem getAllDocTypes_tiers_witness:
  "getAllDocTypes (\<lambda>h r. Inl (str ''Network Error''))
       \<lparr>erpnext = \<lparr>baseUrl = [], headers = [], authenticated = True\<rparr>, history = []\<rparr>
     = (Inr (map (\<lambda>n. JStr (str n))
               [''Customer'', ''Supplier'', ''Item'', ''Sales Order'', ''Purchase Order'',
                ''Sales Invoice'', ''Purchase Invoice'', ''Employee'', ''Lead'',
                ''Opportunity'', ''Quotation'', ''Payment Entry'', ''Journal Entry'',
                ''Stock Entry'']),
        \<lparr>erpnext = \<lparr>baseUrl = [], headers = [], authenticated = True\<rparr>,
         history =
           [HttpRequest (primary_request \<lparr>baseUrl = [], headers = [], authenticated = True\<rparr>),
            ConsoleError (str ''Failed to get DocTypes:'') (str ''Network Error''),
            HttpRequest (alternate_request \<lparr>baseUrl = [], headers = [], authenticated = True\<rparr>),
            ConsoleError (str ''Alternative DocType fetch failed:'') (str ''Network Error'')]\<rparr>)
   \<and> getAllDocTypes
       (\<lambda>h r. if req_url r = search_link_path
               then Inr (JObj [(str ''results'', JArr [JObj [(str ''value'', JStr (str ''Item''))]])])
               else Inl [])
       \<lparr>erpnext = \<lparr>baseUrl = [], headers = [], authenticated = True\<rparr>, history = []\<rparr>
     = (Inr [JStr (str ''Item'')],
        \<lparr>erpnext = \<lparr>baseUrl = [], headers = [], authenticated = True\<rparr>,
         history =
           [HttpRequest (primary_request \<lparr>baseUrl = [], headers = [], authenticated = True\<rparr>),
            ConsoleError (str ''Failed to get DocTypes:'') (str ''Unknown error''),
            HttpRequest (alternate_request \<lparr>baseUrl = [], headers = [], authenticated = True\<rparr>)]\<rparr>)
   \<and> getAllDocTypes
       (\<lambda>h r. Inr (JObj [(str ''data'', JArr [JObj [(str ''name'', JStr (str ''Customer''))]])]))
       \<lparr>erpnext = \<lparr>baseUrl = [], headers = [], authenticated = True\<rparr>, history = []\<rparr>
     = (Inr [JStr (str ''Customer'')],
        \<lparr>erpnext = \<lparr>baseUrl = [], headers = [], authenticated = True\<rparr>,
         history =
           [HttpRequest (primary_request \<lparr>baseUrl = [], headers = [], authenticated = True\<rparr>)]\<rparr>)
   \<and> list_all is_string [JStr (str ''Customer'')]"
proof -
  let ?c = "\<lparr>baseUrl = [], headers = [], authenticated = True\<rparr>"
  let ?s = "\<lparr>erpnext = ?c, history = []\<rparr>"
  let ?down = "\<lambda>(h::event list) (r::request). (Inl (str ''Network Error'') :: jsstring + jsval)"
  let ?alt = "\<lambda>(h::event list) r. if req_url r = search_link_path
               then Inr (JObj [(str ''results'', JArr [JObj [(str ''value'', JStr (str ''Item''))]])])
               else (Inl [] :: jsstring + jsval)"
  let ?ok = "\<lambda>(h::event list) (r::request).
       (Inr (JObj [(str ''data'', JArr [JObj [(str ''name'', JStr (str ''Customer''))]])]) :: jsstring + jsval)"
  have d1: "primary_tier ?down ?s = Inl (Error (str ''Network Error''))"
    by (simp add: primary_tier_def tier_def)
  have d2: "alternate_tier ?down ?s (Error (str ''Network Error'')) = Inl (Error (str ''Network Error''))"
    by (simp add: alternate_tier_def tier_def)
  have a1: "primary_tier ?alt ?s = Inl (Error [])"
    by (simp add: primary_tier_def tier_def primary_request_def request_of_def
        primary_doctypes_path_def search_link_path_def str_def)
  have a2: "alternate_tier ?alt ?s (Error []) = Inr [JStr (str ''Item'')]"
    by (simp add: alternate_tier_def tier_def alternate_request_def request_of_def
        listed_def map_prop_def)
  have o1: "primary_tier ?ok ?s = Inr [JStr (str ''Customer'')]"
    by (simp add: primary_tier_def tier_def listed_def map_prop_def)
  have o2: "\<forall>h r data. ?ok h r = Inr data \<longrightarrow>
           string_rows data (str ''data'') (str ''name'')
           \<and> string_rows data (str ''results'') (str ''value'')"
    by (auto simp: string_rows_def is_string_def str_def)
  from getAllDocTypes_tiers [of ?down ?s] d1 d2
  have "getAllDocTypes ?down ?s
     = (Inr (map (\<lambda>n. JStr (str n))
               [''Customer'', ''Supplier'', ''Item'', ''Sales Order'', ''Purchase Order'',
                ''Sales Invoice'', ''Purchase Invoice'', ''Employee'', ''Lead'',
                ''Opportunity'', ''Quotation'', ''Payment Entry'', ''Journal Entry'',
                ''Stock Entry'']),
        logged (sent (after_primary_failure ?s (Error (str ''Network Error''))) (alternate_request ?c))
                 (str ''Alternative DocType fetch failed:'') (str ''Network Error''))"
    by (simp add: message_or_unknown_def str_def)
  moreover from getAllDocTypes_tiers [of ?alt ?s] a1 a2
  have "getAllDocTypes ?alt ?s
     = (Inr [JStr (str ''Item'')], sent (after_primary_failure ?s (Error [])) (alternate_request ?c))"
    by simp
  moreover from getAllDocTypes_tiers [of ?ok ?s] o1
  have "getAllDocTypes ?ok ?s = (Inr [JStr (str ''Customer'')], sent ?s (primary_request ?c))"
    by simp
  moreover from getAllDocTypes_tiers [of ?ok ?s] o2 this
  have "list_all is_string [JStr (str ''Customer'')]"
    by (metis fst_conv)
  ultimately show ?thesis
    by (simp add: logged_def sent_def after_primary_failure_def message_or_unknown_def str_def)
qed

text \<open>
  The claim as stated, that the result is a sequence of strings in all cases, fails on a
  response whose row carries a number as its name.
\<close>

theorem getAllDocTypes_not_strings_counterexample:
  "fst (getAllDocTypes (\<lambda>h r. Inr (JObj [(str ''data'', JArr [JObj [(str ''name'', JNum (str ''5''))]])]))
         \<lparr>erpnext = \<lparr>baseUrl = str ''http://erp.example.com'', headers = [], authenticated = True\<rparr>,
          history = []\<rparr>)
     = Inr [JNum (str ''5'')]
   \<and> \<not> list_all is_string [JNum (str ''5'')]"
  by (simp add: getAllDocTypes_apply primary_tier_def tier_def listed_def map_prop_def is_string_def)

lemma listed_without_field:
  assumes "map_of (own_props data) k = None" and "k \<noteq> str ''length''"
  shows "listed data k f = Inr []"
  by (auto simp: listed_def get_prop_def assms)

lemma alternate_requested_iff:
  "(HttpRequest (alternate_request (erpnext s)) \<in> set (new_events s (snd (getAllDocTypes b s))))
     = (\<exists>e. primary_tier b s = Inl e)"
proof -
  have "primary_request (erpnext s) \<noteq> alternate_request (erpnext s)"
    by (simp add: primary_request_def alternate_request_def request_of_def
        primary_doctypes_path_def search_link_path_def str_def)
  then show ?thesis
    by (auto simp: getAllDocTypes_apply new_events_def sent_def logged_def
        after_primary_failure_def split: sum.splits)
qed

lemma sequence_throws: "(\<exists>e. sequence rs = Inl e) \<longleftrightarrow> list_ex (\<lambda>r. \<exists>e. r = Inl e) rs"
proof (induction rs)
  case Nil
  then show ?case by simp
next
  case (Cons r rs)
  then show ?case by (cases r) (auto split: sum.splits)
qed

lemma get_prop_throws: "(\<exists>e. get_prop v k = Inl e) \<longleftrightarrow> (v = JUndefined \<or> v = JNull)"
  by (auto simp: get_prop_def)

lemma map_prop_throws:
  "(\<exists>e. map_prop rows f = Inl e) \<longleftrightarrow>
     (case rows of JArr xs \<Rightarrow> list_ex (\<lambda>x. x = JUndefined \<or> x = JNull) xs | _ \<Rightarrow> True)"
  by (cases rows) (simp_all add: map_prop_def sequence_throws list_ex_iff get_prop_throws)

lemma listed_throws:
  "(\<exists>e. listed data k f = Inl e) \<longleftrightarrow>
     truthy data \<and> (\<exists>rows. get_prop data k = Inr rows \<and> unreadable_rows rows)"
proof (cases "truthy data")
  case False
  then show ?thesis by (simp add: listed_def)
next
  case True
  then obtain rows where g: "get_prop data k = Inr rows"
    by (cases data) (auto simp: get_prop_def)
  with True show ?thesis
    using map_prop_throws [of rows f] by (auto simp: listed_def unreadable_rows_def)
qed

lemma primary_tier_throws:
  "(\<exists>e. primary_tier b s = Inl e)
     = ((\<exists>m. b (history s) (primary_request (erpnext s)) = Inl m)
        \<or> (\<exists>data rows. b (history s) (primary_request (erpnext s)) = Inr data
              \<and> truthy data \<and> get_prop data (str ''data'') = Inr rows \<and> unreadable_rows rows))"
proof (cases "b (history s) (primary_request (erpnext s))")
  case (Inl m)
  then show ?thesis by (simp add: primary_tier_def tier_def)
next
  case (Inr data)
  then show ?thesis
    using listed_throws [of data "str ''data''" "str ''name''"]
    by (simp add: primary_tier_def tier_def)
qed

text \<open>
  Claim C9, amended. When the primary request succeeds and the response body has no
  \<open>data\<close> property, \<open>getAllDocTypes\<close> returns the empty list after that one request:
  the search-link endpoint is not tried. The alternate request is sent exactly when the
  primary \<open>try\<close> block throws, and that happens exactly when the request fails or when
  reading a successful response throws a \<open>TypeError\<close>: its \<open>data\<close> is truthy and not
  an array, or is an array with a \<open>null\<close> element. A successful response whose
  \<open>data\<close> is missing, falsy or an empty array throws nothing.
\<close>

theorem fallback_exactly_when_primary_try_throws:
  "(b (history s) (primary_request (erpnext s)) = Inr data
      \<and> map_of (own_props data) (str ''data'') = None \<longrightarrow>
    getAllDocTypes b s = (Inr [], sent s (primary_request (erpnext s)))
      \<and> new_events s (snd (getAllDocTypes b s)) = [HttpRequest (primary_request (erpnext s))])
   \<and> (HttpRequest (alternate_request (erpnext s)) \<in> set (new_events s (snd (getAllDocTypes b s))))
       = (\<exists>e. primary_tier b s = Inl e)
   \<and> (\<exists>e. primary_tier b s = Inl e)
       = ((\<exists>m. b (history s) (primary_request (erpnext s)) = Inl m)
          \<or> (\<exists>data rows. b (history s) (primary_request (erpnext s)) = Inr data
                \<and> truthy data \<and> get_prop data (str ''data'') = Inr rows \<and> unreadable_rows rows))"
proof (intro conjI impI)
  assume h: "b (history s) (primary_request (erpnext s)) = Inr data
      \<and> map_of (own_props data) (str ''data'') = None"
  have "str ''data'' \<noteq> str ''length''" by (simp add: str_def)
  with h have "primary_tier b s = Inr []"
    by (simp add: primary_tier_def tier_def listed_without_field)
  then show "getAllDocTypes b s = (Inr [], sent s (primary_request (erpnext s)))"
    by (simp add: getAllDocTypes_apply)
  then show "new_events s (snd (getAllDocTypes b s)) = [HttpRequest (primary_request (erpnext s))]"
    by (simp add: new_events_def sent_def)
next
  show "(HttpRequest (alternate_request (erpnext s)) \<in> set (new_events s (snd (getAllDocTypes b s))))
       = (\<exists>e. primary_tier b s = Inl e)"
    by (rule alternate_requested_iff)
next
  show "(\<exists>e. primary_tier b s = Inl e)
       = ((\<exists>m. b (history s) (primary_request (erpnext s)) = Inl m)
          \<or> (\<exists>data rows. b (history s) (primary_request (erpnext s)) = Inr data
                \<and> truthy data \<and> get_prop data (str ''data'') = Inr rows \<and> unreadable_rows rows))"
    by (rule primary_tier_throws)
qed

theorem fallback_exactly_when_primary_try_throws_witness:
  "getAllDocTypes (\<lambda>h r. Inr (JObj [(str ''exc_type'', JStr (str ''PermissionError''))]))
       \<lparr>erpnext = \<lparr>baseUrl = [], headers = [], authenticated = True\<rparr>, history = []\<rparr>
     = (Inr [],
        \<lparr>erpnext = \<lparr>baseUrl = [], headers = [], authenticated = True\<rparr>,
         history = [HttpRequest (primary_request \<lparr>baseUrl = [], headers = [], authenticated = True\<rparr>)]\<rparr>)"
  using fallback_exactly_when_primary_try_throws
    [of "\<lambda>h r. Inr (JObj [(str ''exc_type'', JStr (str ''PermissionError''))])"
        "\<lparr>erpnext = \<lparr>baseUrl = [], headers = [], authenticated = True\<rparr>, history = []\<rparr>"
        "JObj [(str ''exc_type'', JStr (str ''PermissionError''))]"]
  by (simp add: sent_def str_def)

text \<open>
  The claim as stated, that a malformed successful response does not trigger the fallback,
  fails on a response whose \<open>data\<close> is a number: the request succeeds, mapping the
  number throws inside the \<open>try\<close>, and the search-link request is sent.
\<close>

theorem malformed_response_counterexample:
  "(\<lambda>h r. Inr (JObj [(str ''data'', JNum (str ''5''))]) :: jsstring + jsval) []
       (primary_request \<lparr>baseUrl = [], headers = [], authenticated = True\<rparr>)
     = Inr (JObj [(str ''data'', JNum (str ''5''))])
   \<and> HttpRequest (alternate_request \<lparr>baseUrl = [], headers = [], authenticated = True\<rparr>)
       \<in> set (history (snd (getAllDocTypes (\<lambda>h r. Inr (JObj [(str ''data'', JNum (str ''5''))]))
             \<lparr>erpnext = \<lparr>baseUrl = [], headers = [], authenticated = True\<rparr>, history = []\<rparr>)))"
  by (simp add: getAllDocTypes_apply primary_tier_def alternate_tier_def tier_def listed_def
      map_prop_def sent_def logged_def after_primary_failure_def)
     (simp add: str_def)

text \<open>
  Claim C10. On an authenticated client a read of \<open>erpnext://DocTypes\<close> always succeeds
  with the payload \<open>{doctypes: [...]}\<close> that wraps the list \<open>getAllDocTypes\<close> returned.
  \<open>getAllDocTypes\<close> never throws, so the \<open>try\<close> around it yields the same whatever its
  \<open>catch\<close> handler is: the branch that raises the \<open>InternalError\<close> is never taken.
\<close>

theorem read_DocTypes_always_succeeds:
  assumes "authenticated (erpnext s)"
  shows "\<exists>xs s'. getAllDocTypes b s = (Inr xs, s')
           \<and> read_resource b doctypes_uri s
               = (Inr \<lparr>contents_uri = doctypes_uri,
                       contents_mimeType = str ''application/json'',
                       contents_text = [PrettyJson (JObj [(str ''doctypes'', JArr xs)])]\<rparr>, s')
           \<and> (\<forall>h. try_catch (io_bind (getAllDocTypes b)
                                (\<lambda>doctypes. io_return (JObj [(str ''doctypes'', JArr doctypes)]))) h s
                    = (Inr (JObj [(str ''doctypes'', JArr xs)]), s'))"
proof -
  from getAllDocTypes_returns [of b s] obtain xs s' where g: "getAllDocTypes b s = (Inr xs, s')"
    by blast
  with assms show ?thesis
    by (simp add: read_resource_def io_bind_def try_catch_def)
qed

theorem read_DocTypes_always_succeeds_witness:
  "authenticated (erpnext \<lparr>erpnext = \<lparr>baseUrl = [], headers = [], authenticated = True\<rparr>, history = []\<rparr>)
   \<and> (\<exists>xs s'. getAllDocTypes (\<lambda>h r. Inl (str ''Network Error''))
                  \<lparr>erpnext = \<lparr>baseUrl = [], headers = [], authenticated = True\<rparr>, history = []\<rparr>
                = (Inr xs, s')
           \<and> read_resource (\<lambda>h r. Inl (str ''Network Error'')) doctypes_uri
                  \<lparr>erpnext = \<lparr>baseUrl = [], headers = [], authenticated = True\<rparr>, history = []\<rparr>
               = (Inr \<lparr>contents_uri = doctypes_uri,
                       contents_mimeType = str ''application/json'',
                       contents_text = [PrettyJson (JObj [(str ''doctypes'', JArr xs)])]\<rparr>, s'))"
proof -
  have a: "authenticated (erpnext \<lparr>erpnext = \<lparr>baseUrl = [], headers = [], authenticated = True\<rparr>, history = []\<rparr>)"
    by simp
  from read_DocTypes_always_succeeds [OF a, of "\<lambda>h r. Inl (str ''Network Error'')"] a
  show ?thesis by blast
qed

section \<open>Reading resources\<close>

lemma match_document_uri_iff:
  "match_document_uri uri = Some (g1, g2) \<longleftrightarrow> document_uri uri g1 g2"
proof
  assume m: "match_document_uri uri = Some (g1, g2)"
  let ?p = "str ''erpnext://''"
  let ?rest = "drop (length ?p) uri"
  from m have p: "take (length ?p) uri = ?p"
    by (auto simp: match_document_uri_def Let_def split: if_splits)
  from m p obtain c where d: "dropWhile (\<lambda>c. c \<noteq> 47) ?rest = c # g2"
    and g1: "g1 = takeWhile (\<lambda>c. c \<noteq> 47) ?rest"
    and ne: "g1 \<noteq> []" "g2 \<noteq> []" "list_all (\<lambda>c. \<not> line_terminator c) g2"
    by (auto simp: match_document_uri_def Let_def split: if_splits list.splits)
  from d have "c = 47" using hd_dropWhile [of "\<lambda>c. c \<noteq> 47" ?rest] by (metis list.sel(1) list.simps(3))
  with d g1 have "?rest = g1 @ [47] @ g2"
    using takeWhile_dropWhile_id [of "\<lambda>c. c \<noteq> 47" ?rest] by simp
  with p have "uri = ?p @ g1 @ [47] @ g2"
    using append_take_drop_id [of "length ?p" uri] by simp
  moreover from g1 have "47 \<notin> set g1" by (auto dest: set_takeWhileD)
  ultimately show "document_uri uri g1 g2"
    using ne by (simp add: document_uri_def str_def)
next
  assume "document_uri uri g1 g2"
  then have u: "uri = str ''erpnext://'' @ g1 @ 47 # g2" and s: "47 \<notin> set g1"
    and ne: "g1 \<noteq> []" "g2 \<noteq> []" "list_all (\<lambda>c. \<not> line_terminator c) g2"
    by (simp_all add: document_uri_def str_def)
  from s have t: "takeWhile (\<lambda>c. c \<noteq> 47) (g1 @ 47 # g2) = g1"
    by (induction g1) auto
  from s have d: "dropWhile (\<lambda>c. c \<noteq> 47) (g1 @ 47 # g2) = 47 # g2"
    by (induction g1) auto
  from u ne t d show "match_document_uri uri = Some (g1, g2)"
    by (simp add: match_document_uri_def Let_def)
qed

lemma document_uri_not_doctypes: "document_uri uri g1 g2 \<Longrightarrow> uri \<noteq> doctypes_uri"
proof
  assume d: "document_uri uri g1 g2" and "uri = doctypes_uri"
  then have "match_document_uri doctypes_uri = Some (g1, g2)"
    by (simp add: match_document_uri_iff)
  then show False
    by (simp add: match_document_uri_def doctypes_uri_def str_def)
qed

text \<open>
  What a read does on an authenticated client. A read of exactly \<open>erpnext://DocTypes\<close>
  runs \<open>getAllDocTypes()\<close> and returns its list wrapped as \<open>{doctypes: [...]}\<close>. A
  read of a document URI whose two segments are well-formed percent-encodings runs
  \<open>getDocument\<close> on the decoded doctype and name, returns the document when it is
  truthy, raises \<open>Invalid ERPNext resource URI\<close> when it is not, and raises
  \<open>Failed to fetch\<close> when \<open>getDocument\<close> throws. A read of a URI that is neither
  raises \<open>Invalid ERPNext resource URI\<close> without touching the backend.
\<close>

lemma read_resource_dispatch:
  assumes "authenticated (erpnext s)"
  shows "(\<exists>xs s'. getAllDocTypes b s = (Inr xs, s')
            \<and> read_resource b doctypes_uri s
                = (Inr \<lparr>contents_uri = doctypes_uri,
                        contents_mimeType = str ''application/json'',
                        contents_text = [PrettyJson (JObj [(str ''doctypes'', JArr xs)])]\<rparr>, s'))
   \<and> (\<forall>g1 g2 doctype name.
         document_uri uri g1 g2
         \<and> decodeURIComponent g1 = Inr doctype \<and> decodeURIComponent g2 = Inr name \<longrightarrow>
         read_resource b uri s
           = (case getDocument b doctype name s of
                (Inr result, s') \<Rightarrow>
                  if truthy result
                  then (Inr \<lparr>contents_uri = uri,
                             contents_mimeType = str ''application/json'',
                             contents_text = [PrettyJson result]\<rparr>, s')
                  else (Inl (McpError InvalidRequest (str ''Invalid ERPNext resource URI: '' @ uri)), s')
              | (Inl error, s') \<Rightarrow>
                  (Inl (McpError InvalidRequest
                     (str ''Failed to fetch '' @ doctype @ str '' '' @ name @ str '': ''
                      @ message_or_unknown error)), s')))
   \<and> (uri \<noteq> doctypes_uri \<and> (\<forall>g1 g2. \<not> document_uri uri g1 g2) \<longrightarrow>
         read_resource b uri s
           = (Inl (McpError InvalidRequest (str ''Invalid ERPNext resource URI: '' @ uri)), s))"
proof (intro conjI allI impI)
  from getAllDocTypes_returns [of b s] obtain xs s' where g: "getAllDocTypes b s = (Inr xs, s')"
    by blast
  with assms have "read_resource b doctypes_uri s
                = (Inr \<lparr>contents_uri = doctypes_uri,
                        contents_mimeType = str ''application/json'',
                        contents_text = [PrettyJson (JObj [(str ''doctypes'', JArr xs)])]\<rparr>, s')"
    by (simp add: read_resource_def io_bind_def try_catch_def)
  with g show "\<exists>xs s'. getAllDocTypes b s = (Inr xs, s')
            \<and> read_resource b doctypes_uri s
                = (Inr \<lparr>contents_uri = doctypes_uri,
                        contents_mimeType = str ''application/json'',
                        contents_text = [PrettyJson (JObj [(str ''doctypes'', JArr xs)])]\<rparr>, s')"
    by blast
next
  fix g1 g2 doctype name
  assume h: "document_uri uri g1 g2
         \<and> decodeURIComponent g1 = Inr doctype \<and> decodeURIComponent g2 = Inr name"
  then have m: "match_document_uri uri = Some (g1, g2)" and n: "uri \<noteq> doctypes_uri"
    by (auto simp: match_document_uri_iff dest: document_uri_not_doctypes)
  with assms h show "read_resource b uri s
           = (case getDocument b doctype name s of
                (Inr result, s') \<Rightarrow>
                  if truthy result
                  then (Inr \<lparr>contents_uri = uri,
                             contents_mimeType = str ''application/json'',
                             contents_text = [PrettyJson result]\<rparr>, s')
                  else (Inl (McpError InvalidRequest (str ''Invalid ERPNext resource URI: '' @ uri)), s')
              | (Inl error, s') \<Rightarrow>
                  (Inl (McpError InvalidRequest
                     (str ''Failed to fetch '' @ doctype @ str '' '' @ name @ str '': ''
                      @ message_or_unknown error)), s'))"
    by (simp add: read_resource_def io_bind_def try_catch_def split: prod.split sum.split)
next
  assume h: "uri \<noteq> doctypes_uri \<and> (\<forall>g1 g2. \<not> document_uri uri g1 g2)"
  then have "match_document_uri uri = None"
    by (cases "match_document_uri uri") (auto simp: match_document_uri_iff)
  with assms h show "read_resource b uri s
           = (Inl (McpError InvalidRequest (str ''Invalid ERPNext resource URI: '' @ uri)), s)"
    by (simp add: read_resource_def io_bind_def)
qed

lemma read_resource_example:
  "read_resource (\<lambda>h r. Inr (JObj [(str ''data'', JObj [(str ''item_code'', JStr (str ''ITEM-001''))])]))
       (str ''erpnext://Item/ITEM-001'')
       \<lparr>erpnext = \<lparr>baseUrl = [], headers = [], authenticated = True\<rparr>, history = []\<rparr>
     = (Inr \<lparr>contents_uri = str ''erpnext://Item/ITEM-001'',
             contents_mimeType = str ''application/json'',
             contents_text = [PrettyJson (JObj [(str ''item_code'', JStr (str ''ITEM-001''))])]\<rparr>,
        \<lparr>erpnext = \<lparr>baseUrl = [], headers = [], authenticated = True\<rparr>,
         history = [HttpRequest \<lparr>req_method = GET, req_baseURL = [], req_headers = [],
                      req_url = str ''/api/resource/Item/ITEM-001'', req_params = [],
                      req_body = None\<rparr>]\<rparr>)
   \<and> read_resource (\<lambda>h r. Inr (JObj [(str ''data'', JObj [(str ''item_code'', JStr (str ''ITEM-001''))])]))
       (str ''erpnext://Item'')
       \<lparr>erpnext = \<lparr>baseUrl = [], headers = [], authenticated = True\<rparr>, history = []\<rparr>
     = (Inl (McpError InvalidRequest (str ''Invalid ERPNext resource URI: erpnext://Item'')),
        \<lparr>erpnext = \<lparr>baseUrl = [], headers = [], authenticated = True\<rparr>, history = []\<rparr>)"
proof -
  let ?s = "\<lparr>erpnext = \<lparr>baseUrl = [], headers = [], authenticated = True\<rparr>, history = []\<rparr>"
  let ?b = "\<lambda>(h::event list) (r::request).
     (Inr (JObj [(str ''data'', JObj [(str ''item_code'', JStr (str ''ITEM-001''))])]) :: jsstring + jsval)"
  have a: "authenticated (erpnext ?s)" by simp
  have d: "document_uri (str ''erpnext://Item/ITEM-001'') (str ''Item'') (str ''ITEM-001'')"
    by (simp add: document_uri_def line_terminator_def str_def)
  have e: "decodeURIComponent (str ''Item'') = Inr (str ''Item'')"
    "decodeURIComponent (str ''ITEM-001'') = Inr (str ''ITEM-001'')"
    by (simp_all add: decodeURIComponent_def str_def)
  have n: "\<forall>g1 g2. \<not> document_uri (str ''erpnext://Item'') g1 g2"
    by (simp add: match_document_uri_iff [symmetric] match_document_uri_def str_def)
  have u: "str ''erpnext://Item'' \<noteq> doctypes_uri"
    by (simp add: doctypes_uri_def str_def)
  have g: "getDocument ?b (str ''Item'') (str ''ITEM-001'') ?s
     = (Inr (JObj [(str ''item_code'', JStr (str ''ITEM-001''))]),
        \<lparr>erpnext = \<lparr>baseUrl = [], headers = [], authenticated = True\<rparr>,
         history = [HttpRequest \<lparr>req_method = GET, req_baseURL = [], req_headers = [],
                      req_url = str ''/api/resource/Item/ITEM-001'', req_params = [],
                      req_body = None\<rparr>]\<rparr>)"
    by (simp add: getDocument_def getDocument_path_def try_catch_def io_bind_def
        axios_request_apply sent_def request_of_def)
       (simp add: str_def)
  from read_resource_dispatch [OF a, of ?b "str ''erpnext://Item/ITEM-001''"] d e g
  have "read_resource ?b (str ''erpnext://Item/ITEM-001'') ?s
     = (Inr \<lparr>contents_uri = str ''erpnext://Item/ITEM-001'',
             contents_mimeType = str ''application/json'',
             contents_text = [PrettyJson (JObj [(str ''item_code'', JStr (str ''ITEM-001''))])]\<rparr>,
        \<lparr>erpnext = \<lparr>baseUrl = [], headers = [], authenticated = True\<rparr>,
         history = [HttpRequest \<lparr>req_method = GET, req_baseURL = [], req_headers = [],
                      req_url = str ''/api/resource/Item/ITEM-001'', req_params = [],
                      req_body = None\<rparr>]\<rparr>)"
    by simp
  moreover from read_resource_dispatch [OF a, of ?b "str ''erpnext://Item''"] n u
  have "read_resource ?b (str ''erpnext://Item'') ?s
     = (Inl (McpError InvalidRequest (str ''Invalid ERPNext resource URI: '' @ str ''erpnext://Item'')), ?s)"
    by simp
  ultimately show ?thesis by (simp add: str_def)
qed

text \<open>
  Claim C4, at an input where the code departs from it. On an authenticated client, the
  URI \<open>erpnext://Item/%\<close> matches the document pattern, with \<open>Item\<close> as first
  segment and \<open>%\<close> as the rest. The handler decodes both segments before its \<open>try\<close>
  block, and \<open>decodeURIComponent\<close> throws a \<open>URIError\<close> on the malformed escape:
  the read neither calls \<open>getDocument\<close> nor raises the protocol-level
  \<open>Invalid ERPNext resource URI\<close> error, and no request is sent.
\<close>

theorem malformed_escape_raises_URIError:
  "match_document_uri (str ''erpnext://Item/%'') = Some (str ''Item'', str ''%'')
   \<and> read_resource (\<lambda>h r. Inr (JObj [(str ''data'', JObj [(str ''name'', JStr (str ''%''))])]))
        (str ''erpnext://Item/%'')
        \<lparr>erpnext = \<lparr>baseUrl = str ''http://erp.example.com'', headers = [], authenticated = True\<rparr>,
         history = []\<rparr>
     = (Inl (URIError (str ''URI malformed'')),
        \<lparr>erpnext = \<lparr>baseUrl = str ''http://erp.example.com'', headers = [], authenticated = True\<rparr>,
         history = []\<rparr>)"
  by (simp add: read_resource_def match_document_uri_def decodeURIComponent_def io_bind_def
      Let_def line_terminator_def hex_digit_def doctypes_uri_def str_def)

section \<open>The stored URL and the request paths\<close>

lemma doubled_slash_append:
  "doubled_slash (xs @ ys) \<longleftrightarrow>
     doubled_slash xs \<or> doubled_slash ys \<or> (xs \<noteq> [] \<and> ys \<noteq> [] \<and> last xs = 47 \<and> hd ys = 47)"
proof (induction xs)
  case Nil
  then show ?case by simp
next
  case (Cons a xs)
  show ?case
  proof (cases xs)
    case Nil
    then show ?thesis by (cases ys) auto
  next
    case (Cons b cs)
    with Cons.IH show ?thesis by auto
  qed
qed

lemma resource_prefix:
  "\<not> doubled_slash (str ''/api/resource/'')" "last (str ''/api/resource/'') = 47"
  "str ''/api/resource/'' \<noteq> []"
  by (simp_all add: str_def)

lemma doubled_slash_getDocList_path:
  "doubled_slash (getDocList_path d) = list_path_clash d"
  by (auto simp: getDocList_path_def doubled_slash_append resource_prefix list_path_clash_def)

lemma doubled_slash_getDocument_path:
  "doubled_slash (getDocument_path d n) = document_path_clash d n"
proof -
  have p: "getDocument_path d n = str ''/api/resource/'' @ (d @ 47 # n)"
    by (simp add: getDocument_path_def str_def)
  have t: "doubled_slash (47 # n) = ((n \<noteq> [] \<and> hd n = 47) \<or> doubled_slash n)"
    by (cases n) auto
  have m: "doubled_slash (d @ 47 # n)
             = (doubled_slash d \<or> (n \<noteq> [] \<and> hd n = 47) \<or> doubled_slash n
                \<or> (d \<noteq> [] \<and> last d = 47))"
    using doubled_slash_append [of d "47 # n"] by (auto simp: t)
  have h: "hd (d @ 47 # n) = 47 \<longleftrightarrow> d = [] \<or> hd d = 47"
    by (cases d) auto
  have "doubled_slash (str ''/api/resource/'' @ (d @ 47 # n))
          = (doubled_slash (d @ 47 # n) \<or> hd (d @ 47 # n) = 47)"
    using doubled_slash_append [of "str ''/api/resource/''" "d @ 47 # n"]
    by (simp add: resource_prefix)
  then show ?thesis
    unfolding p m h document_path_clash_def by blast
qed

lemma fixed_paths_clean:
  "\<not> doubled_slash runReport_path" "\<not> doubled_slash primary_doctypes_path"
  "\<not> doubled_slash search_link_path"
  by (simp_all add: runReport_path_def primary_doctypes_path_def search_link_path_def str_def)

lemma new_events_sent [simp]: "new_events s (sent s r) = [HttpRequest r]"
  by (simp add: new_events_def sent_def)

lemma client_method_paths:
  assumes "client_method x"
    and "HttpRequest r \<in> set (new_events s (perform b x s))"
  shows "req_baseURL r = baseUrl (erpnext s) \<and> hd (req_url r) = 47
         \<and> doubled_slash (req_url r) = brings_doubled_slash x"
proof (cases x)
  case IsAuthenticated
  with assms(2) show ?thesis by (simp add: new_events_def)
next
  case (GetDocument d n)
  with assms show ?thesis
    by (auto simp: snd_getDocument request_of_def doubled_slash_getDocument_path)
       (simp add: getDocument_path_def str_def)
next
  case (GetDocList d f fs l)
  with assms show ?thesis
    by (auto simp: snd_getDocList request_of_def doubled_slash_getDocList_path)
       (simp add: getDocList_path_def str_def)
next
  case (CreateDocument d doc)
  with assms show ?thesis
    by (auto simp: snd_createDocument request_of_def doubled_slash_getDocList_path)
       (simp add: getDocList_path_def str_def)
next
  case (UpdateDocument d n doc)
  with assms show ?thesis
    by (auto simp: snd_updateDocument request_of_def doubled_slash_getDocument_path)
       (simp add: getDocument_path_def str_def)
next
  case (RunReport rn f)
  with assms show ?thesis
    by (auto simp: snd_runReport request_of_def fixed_paths_clean)
       (simp add: runReport_path_def str_def)
next
  case GetAllDocTypes
  have h: "hd primary_doctypes_path = 47" "hd search_link_path = 47"
    by (simp_all add: primary_doctypes_path_def search_link_path_def str_def)
  from GetAllDocTypes assms(2) have "r = primary_request (erpnext s) \<or> r = alternate_request (erpnext s)"
    by (auto simp: getAllDocTypes_apply new_events_def sent_def logged_def after_primary_failure_def
        split: sum.splits)
  with h GetAllDocTypes show ?thesis
    by (auto simp: primary_request_def alternate_request_def request_of_def fixed_paths_clean)
next
  case (ReadResource uri)
  with assms(1) show ?thesis by simp
next
  case (CallTool name args)
  with assms(1) show ?thesis by simp
qed

lemma new_client_baseUrl:
  assumes "ERPNEXT_URL e = Some url" and "url \<noteq> []"
  shows "\<exists>c. new_ERPNextClient e = Inr c \<and> baseUrl c = strip_trailing_slash url"
  using assms
  by (cases "env_truthy (ERPNEXT_API_KEY e) \<and> env_truthy (ERPNEXT_API_SECRET e)")
     (simp_all add: new_ERPNextClient_def env_truthy_def Let_def)




section \<open>Describing the fields of a doctype\<close>

lemma sample_of_printable:
  "printable v \<Longrightarrow>
   sample_of v = Inr (if v = JUndefined \<or> v = JNull \<or> shown v = [] then JNull
                      else JStr (take 50 (shown v)))"
  by (auto simp: sample_of_def printable_def shown_def split: sum.splits)

lemma field_descriptor_record:
  assumes "distinct (map fst kvs)" and "(k, v) \<in> set kvs" and "printable v"
  shows "field_descriptor (JObj kvs) k = Inr (descriptor k v)"
proof -
  from assms(1,2) have "map_of kvs k = Some v" by (rule map_of_is_SomeI)
  with assms(3) show ?thesis
    by (simp add: field_descriptor_def descriptor_def sample_of_printable)
qed

lemma describe_fields_record:
  assumes "distinct (map fst kvs)" and "list_all (\<lambda>(k, v). printable v) kvs"
  shows "describe_fields (JObj kvs) = Inr (JArr (map (\<lambda>(k, v). descriptor k v) kvs))"
proof -
  have "map (field_descriptor (JObj kvs)) (map fst kvs)
          = map Inr (map (\<lambda>(k, v). descriptor k v) kvs)"
    using assms by (auto simp: list_all_iff field_descriptor_record)
  then have "sequence (map (field_descriptor (JObj kvs)) (map fst kvs))
          = Inr (map (\<lambda>(k, v). descriptor k v) kvs)"
    by (simp only: sequence_map_Inr)
  then show ?thesis
    by (simp add: describe_fields_def object_keys_def)
qed

lemma sample_params:
  "getDocList_params (JObj []) (JArr [JStr (str ''*'')]) (JNum (str ''1''))
     = [(str ''fields'', Stringified (JArr [JStr (str ''*'')])),
        (str ''filters'', Stringified (JObj [])),
        (str ''limit_page_length'', Plain (JNum (str ''1'')))]"
  by (simp add: getDocList_params_def) (simp add: str_def)

lemma get_doctype_fields_apply:
  assumes "authenticated (erpnext s)"
    and "js_toString (arg args (str ''doctype'')) = Inr doctype" and "doctype \<noteq> []"
  shows "tool_get_doctype_fields b args s
     = (case getDocList b doctype (JObj []) (JArr [JStr (str ''*'')]) (JNum (str ''1'')) s of
          (Inl error, s') \<Rightarrow>
            (Inr (error_result (str ''Failed to get fields for '' @ doctype @ str '': ''
                                @ message_or_unknown error)), s')
        | (Inr documents, s') \<Rightarrow>
            if \<not> truthy documents \<or> get_prop documents (str ''length'') = Inr (JNum (str ''0''))
            then (Inr (error_result (no_documents doctype)), s')
            else (case get_prop documents (str ''0'') of
                    Inl error \<Rightarrow>
                      (Inr (error_result (str ''Failed to get fields for '' @ doctype @ str '': ''
                                          @ message_or_unknown error)), s')
                  | Inr sampleDoc \<Rightarrow>
                      (case describe_fields sampleDoc of
                         Inl error \<Rightarrow>
                           (Inr (error_result (str ''Failed to get fields for '' @ doctype @ str '': ''
                                               @ message_or_unknown error)), s')
                       | Inr ds \<Rightarrow> (Inr \<lparr>content_text = [PrettyJson ds], isError = False\<rparr>, s'))))"
  using assms
  by (simp add: tool_get_doctype_fields_def io_bind_def try_catch_def
      split: prod.split sum.split)

lemma failed_to_get_fields_error_result [simp]:
  "failed_to_get_fields doctype
     (error_result (str ''Failed to get fields for '' @ doctype @ str '': '' @ m))"
  by (auto simp: failed_to_get_fields_def error_result_def)

lemma describe_fields_nothing:
  "v = JUndefined \<or> v = JNull \<Longrightarrow> \<exists>e. describe_fields v = Inl e"
  by (auto simp: describe_fields_def object_keys_def)

lemma field_descriptor_throws:
  assumes "distinct (map fst kvs)" and "(k, v) \<in> set kvs" and "\<not> printable v"
  shows "\<exists>e. field_descriptor (JObj kvs) k = Inl e"
proof -
  from assms(1,2) have m: "map_of kvs k = Some v" by (rule map_of_is_SomeI)
  from assms(3) obtain e where "js_toString v = Inl e"
    by (auto simp: printable_def split: sum.splits)
  moreover from this have "v \<noteq> JUndefined" "v \<noteq> JNull" by auto
  ultimately show ?thesis using m
    by (simp add: field_descriptor_def sample_of_def)
qed

lemma describe_fields_throws:
  assumes "distinct (map fst kvs)" and "\<not> list_all (\<lambda>(k, v). printable v) kvs"
  shows "\<exists>e. describe_fields (JObj kvs) = Inl e"
proof -
  from assms(2) obtain k v where kv: "(k, v) \<in> set kvs" "\<not> printable v"
    by (auto simp: list_all_iff)
  with assms(1) obtain e where "field_descriptor (JObj kvs) k = Inl e"
    using field_descriptor_throws by blast
  with kv(1) have "list_ex (\<lambda>r. \<exists>e. r = Inl e) (map (field_descriptor (JObj kvs)) (map fst kvs))"
    by (force simp: list_ex_iff)
  then obtain e' where "sequence (map (field_descriptor (JObj kvs)) (map fst kvs)) = Inl e'"
    using sequence_throws by blast
  then show ?thesis
    by (simp add: describe_fields_def object_keys_def)
qed

text \<open>
  Claim C8, amended. On an authenticated client, a \<open>get_doctype_fields\<close> call whose
  \<open>doctype\<close> argument converts to a string that is not empty calls
  \<open>getDocList(doctype, {}, ["*"], 1)\<close> and nothing else, and raises no protocol-level
  exception whatever the backend answers. When the list is empty or falsy, the result is
  flagged \<open>isError\<close> with the text
  \<open>No documents found for {doctype}. Cannot determine fields.\<close> When the list is an
  array whose first element is a record every value of which converts to a string, the
  result lists for each key of the record, in order, the descriptor with the field name,
  the \<open>typeof\<close> of the value and a sample: the text of the value cut to 50 code units,
  or \<open>null\<close> when the value is \<open>null\<close> or its text is empty. When the conversion of
  a value of that record throws, when the list has no first element or \<open>null\<close> as
  first element, and when \<open>getDocList\<close> fails, the result is flagged \<open>isError\<close> with
  the text \<open>Failed to get fields for {doctype}: \<close> and the error's message.
\<close>

theorem get_doctype_fields_describes_first_record:
  assumes "authenticated (erpnext s)"
    and "js_toString (arg args (str ''doctype'')) = Inr doctype" and "doctype \<noteq> []"
  shows "snd (call_tool b (str ''get_doctype_fields'') args s)
           = snd (getDocList b doctype (JObj []) (JArr [JStr (str ''*'')]) (JNum (str ''1'')) s)
     \<and> new_events s (snd (call_tool b (str ''get_doctype_fields'') args s))
           = [HttpRequest (sample_request (erpnext s) doctype)]
     \<and> (\<exists>res. fst (call_tool b (str ''get_doctype_fields'') args s) = Inr res)
     \<and> (\<forall>documents.
           fst (getDocList b doctype (JObj []) (JArr [JStr (str ''*'')]) (JNum (str ''1'')) s) = Inr documents
           \<and> (\<not> truthy documents \<or> documents = JArr []) \<longrightarrow>
           fst (call_tool b (str ''get_doctype_fields'') args s)
             = Inr \<lparr>content_text =
                      [Lit (str ''No documents found for '' @ doctype
                            @ str ''. Cannot determine fields.'')],
                    isError = True\<rparr>)
     \<and> (\<forall>kvs rest.
           fst (getDocList b doctype (JObj []) (JArr [JStr (str ''*'')]) (JNum (str ''1'')) s)
             = Inr (JArr (JObj kvs # rest))
           \<and> distinct (map fst kvs) \<and> list_all (\<lambda>(k, v). printable v) kvs \<longrightarrow>
           fst (call_tool b (str ''get_doctype_fields'') args s)
             = Inr \<lparr>content_text = [PrettyJson (JArr (map (\<lambda>(k, v). descriptor k v) kvs))],
                    isError = False\<rparr>)
     \<and> (\<forall>kvs rest.
           fst (getDocList b doctype (JObj []) (JArr [JStr (str ''*'')]) (JNum (str ''1'')) s)
             = Inr (JArr (JObj kvs # rest))
           \<and> distinct (map fst kvs) \<and> \<not> list_all (\<lambda>(k, v). printable v) kvs \<longrightarrow>
           (\<exists>res. fst (call_tool b (str ''get_doctype_fields'') args s) = Inr res
                  \<and> failed_to_get_fields doctype res))
     \<and> (\<forall>documents.
           fst (getDocList b doctype (JObj []) (JArr [JStr (str ''*'')]) (JNum (str ''1'')) s) = Inr documents
           \<and> no_first_element documents \<longrightarrow>
           (\<exists>res. fst (call_tool b (str ''get_doctype_fields'') args s) = Inr res
                  \<and> failed_to_get_fields doctype res))
     \<and> (\<forall>error.
           fst (getDocList b doctype (JObj []) (JArr [JStr (str ''*'')]) (JNum (str ''1'')) s) = Inl error \<longrightarrow>
           (\<exists>res. fst (call_tool b (str ''get_doctype_fields'') args s) = Inr res
                  \<and> failed_to_get_fields doctype res))"
proof -
  let ?g = "getDocList b doctype (JObj []) (JArr [JStr (str ''*'')]) (JNum (str ''1'')) s"
  have c: "call_tool b (str ''get_doctype_fields'') args s = tool_get_doctype_fields b args s"
    by (simp add: call_tool_def str_def)
  note a = get_doctype_fields_apply [OF assms, of b]
  have 1: "snd (tool_get_doctype_fields b args s) = snd ?g"
    unfolding a by (simp split: prod.split sum.split)
  have 2: "new_events s (snd ?g) = [HttpRequest (sample_request (erpnext s) doctype)]"
    by (simp add: snd_getDocList sample_params sample_request_def getDocList_path_def)
  have 3: "\<exists>res. fst (tool_get_doctype_fields b args s) = Inr res"
    unfolding a by (simp split: prod.split sum.split)
  have 4: "fst (tool_get_doctype_fields b args s)
             = Inr \<lparr>content_text =
                      [Lit (str ''No documents found for '' @ doctype
                            @ str ''. Cannot determine fields.'')],
                    isError = True\<rparr>"
    if "fst ?g = Inr documents \<and> (\<not> truthy documents \<or> documents = JArr [])" for documents
    using that unfolding a
    by (auto simp: error_result_def no_documents_def split: prod.split sum.split)
  have 5: "fst (tool_get_doctype_fields b args s)
             = Inr \<lparr>content_text = [PrettyJson (JArr (map (\<lambda>(k, v). descriptor k v) kvs))],
                    isError = False\<rparr>"
    if "fst ?g = Inr (JArr (JObj kvs # rest))
        \<and> distinct (map fst kvs) \<and> list_all (\<lambda>(k, v). printable v) kvs" for kvs rest
    using that unfolding a
    by (auto simp: describe_fields_record split: prod.split sum.split)
  have 6: "\<exists>res. fst (tool_get_doctype_fields b args s) = Inr res
                  \<and> failed_to_get_fields doctype res"
    if "fst ?g = Inr (JArr (JObj kvs # rest))
        \<and> distinct (map fst kvs) \<and> \<not> list_all (\<lambda>(k, v). printable v) kvs" for kvs rest
  proof -
    from that obtain e where "describe_fields (JObj kvs) = Inl e"
      using describe_fields_throws by blast
    with that show ?thesis unfolding a
      by (auto split: prod.split sum.split)
  qed
  have 7: "\<exists>res. fst (tool_get_doctype_fields b args s) = Inr res
                  \<and> failed_to_get_fields doctype res"
    if "fst ?g = Inr documents \<and> no_first_element documents" for documents
  proof -
    from that obtain v where v: "get_prop documents (str ''0'') = Inr v" "v = JUndefined \<or> v = JNull"
      by (auto simp: no_first_element_def)
    then obtain e where "describe_fields v = Inl e"
      using describe_fields_nothing by blast
    with that v show ?thesis unfolding a
      by (auto simp: no_first_element_def split: prod.split sum.split)
  qed
  have 8: "\<exists>res. fst (tool_get_doctype_fields b args s) = Inr res
                  \<and> failed_to_get_fields doctype res"
    if "fst ?g = Inl error" for error
    using that unfolding a by (auto split: prod.split sum.split)
  from 1 2 3 show ?thesis unfolding c
    using 4 5 6 7 8 by (intro conjI allI impI) auto
qed

lemma getDocList_returns_data:
  "b (history s) (request_of (erpnext s) GET (getDocList_path d) (getDocList_params f fs l) None)
     = Inr (JObj [(str ''data'', v)]) \<Longrightarrow>
   fst (getDocList b d f fs l s) = Inr v"
  by (simp add: getDocList_def try_catch_def io_bind_def axios_request_apply)

theorem get_doctype_fields_describes_first_record_witness:
  "fst (call_tool
         (\<lambda>h r. Inr (JObj [(str ''data'',
                    JArr [JObj [(str ''name'', JStr (str ''CUST-0001'')),
                                (str ''credit_limit'', JNum (str ''1e+21''))]])]))
         (str ''get_doctype_fields'') (Some [(str ''doctype'', JStr (str ''Customer''))])
         \<lparr>erpnext = \<lparr>baseUrl = [], headers = [], authenticated = True\<rparr>, history = []\<rparr>)
     = Inr \<lparr>content_text =
              [PrettyJson (JArr
                 [JObj [(str ''fieldname'', JStr (str ''name'')),
                        (str ''value'', JStr (str ''string'')),
                        (str ''sample'', JStr (str ''CUST-0001''))],
                  JObj [(str ''fieldname'', JStr (str ''credit_limit'')),
                        (str ''value'', JStr (str ''number'')),
                        (str ''sample'', JStr (str ''1e+21''))]])],
            isError = False\<rparr>"
proof -
  let ?s = "\<lparr>erpnext = \<lparr>baseUrl = [], headers = [], authenticated = True\<rparr>, history = []\<rparr>"
  let ?kvs = "[(str ''name'', JStr (str ''CUST-0001'')), (str ''credit_limit'', JNum (str ''1e+21''))]"
  let ?b = "\<lambda>(h::event list) (r::request).
     (Inr (JObj [(str ''data'', JArr [JObj ?kvs])]) :: jsstring + jsval)"
  let ?args = "Some [(str ''doctype'', JStr (str ''Customer''))]"
  have a: "authenticated (erpnext ?s)" by simp
  have d: "js_toString (arg ?args (str ''doctype'')) = Inr (str ''Customer'')"
    by (simp add: arg_def)
  have n: "str ''Customer'' \<noteq> []" by (simp add: str_def)
  have g: "fst (getDocList ?b (str ''Customer'') (JObj []) (JArr [JStr (str ''*'')]) (JNum (str ''1'')) ?s)
             = Inr (JArr (JObj ?kvs # []))"
    by (rule getDocList_returns_data) simp
  have k: "distinct (map fst ?kvs)" by (simp add: str_def)
  have p: "list_all (\<lambda>(k, v). printable v) ?kvs" by (simp add: printable_def)
  from get_doctype_fields_describes_first_record [OF a d n, of ?b] g k p
  have "fst (call_tool ?b (str ''get_doctype_fields'') ?args ?s)
     = Inr \<lparr>content_text = [PrettyJson (JArr (map (\<lambda>(k, v). descriptor k v) ?kvs))],
            isError = False\<rparr>"
    by blast
  then show ?thesis
    by (simp add: descriptor_def shown_def str_def)
qed

text \<open>
  The claim as stated, that every descriptor carries a stringified sample, fails on a
  field whose value is \<open>null\<close>: its sample is \<open>null\<close>, not the text \<open>null\<close>.
\<close>

theorem null_sample_counterexample:
  "fst (call_tool
         (\<lambda>h r. Inr (JObj [(str ''data'',
                    JArr [JObj [(str ''name'', JStr (str ''CUST-0001'')),
                                (str ''email_id'', JNull)]])]))
         (str ''get_doctype_fields'') (Some [(str ''doctype'', JStr (str ''Customer''))])
         \<lparr>erpnext = \<lparr>baseUrl = [], headers = [], authenticated = True\<rparr>, history = []\<rparr>)
     = Inr \<lparr>content_text =
              [PrettyJson (JArr
                 [JObj [(str ''fieldname'', JStr (str ''name'')),
                        (str ''value'', JStr (str ''string'')),
                        (str ''sample'', JStr (str ''CUST-0001''))],
                  JObj [(str ''fieldname'', JStr (str ''email_id'')),
                        (str ''value'', JStr (str ''object'')),
                        (str ''sample'', JNull)]])],
            isError = False\<rparr>
   \<and> js_toString JNull = Inr (str ''null'')"
proof -
  let ?s = "\<lparr>erpnext = \<lparr>baseUrl = [], headers = [], authenticated = True\<rparr>, history = []\<rparr>"
  let ?kvs = "[(str ''name'', JStr (str ''CUST-0001'')), (str ''email_id'', JNull)]"
  let ?b = "\<lambda>(h::event list) (r::request).
     (Inr (JObj [(str ''data'', JArr [JObj ?kvs])]) :: jsstring + jsval)"
  let ?args = "Some [(str ''doctype'', JStr (str ''Customer''))]"
  have a: "authenticated (erpnext ?s)" by simp
  have d: "js_toString (arg ?args (str ''doctype'')) = Inr (str ''Customer'')"
    by (simp add: arg_def)
  have n: "str ''Customer'' \<noteq> []" by (simp add: str_def)
  have g: "getDocList ?b (str ''Customer'') (JObj []) (JArr [JStr (str ''*'')]) (JNum (str ''1'')) ?s
             = (Inr (JArr [JObj ?kvs]),
                sent ?s (request_of (erpnext ?s) GET (getDocList_path (str ''Customer''))
                           (getDocList_params (JObj []) (JArr [JStr (str ''*'')]) (JNum (str ''1''))) None))"
    by (simp add: getDocList_def try_catch_def io_bind_def axios_request_apply)
  have k: "distinct (map fst ?kvs)" by (simp add: str_def)
  have p: "list_all (\<lambda>(k, v). printable v) ?kvs" by (simp add: printable_def)
  have "call_tool ?b (str ''get_doctype_fields'') ?args ?s = tool_get_doctype_fields ?b ?args ?s"
    by (simp add: call_tool_def str_def)
  then have "fst (call_tool ?b (str ''get_doctype_fields'') ?args ?s)
     = Inr \<lparr>content_text = [PrettyJson (JArr (map (\<lambda>(k, v). descriptor k v) ?kvs))],
            isError = False\<rparr>"
    by (simp add: get_doctype_fields_apply [OF a d n] g describe_fields_record [OF k p])
  then show ?thesis
    by (simp add: descriptor_def shown_def str_def)
qed

section \<open>Required arguments, in the other tools\<close>

text \<open>
  An empty doctype and a missing \<open>data\<close> are rejected before any request; a missing
  \<open>doctype\<close>, \<open>name\<close> or \<open>report_name\<close> is not, in any of the tools.
\<close>

lemma empty_doctype_is_rejected:
  assumes "authenticated (erpnext s)" and "js_toString (arg args (str ''doctype'')) = Inr []"
  shows "call_tool b (str ''get_documents'') args s
           = (Inl (McpError InvalidParams (str ''Doctype is required'')), s)"
    and "call_tool b (str ''get_doctype_fields'') args s
           = (Inl (McpError InvalidParams (str ''Doctype is required'')), s)"
  using assms
  by (simp_all add: call_tool_def tool_get_documents_def tool_get_doctype_fields_def io_bind_def str_def)

lemma missing_data_is_rejected:
  assumes "authenticated (erpnext s)" and "\<not> truthy (arg args (str ''data''))"
    and "js_toString (arg args (str ''doctype'')) = Inr doctype"
    and "js_toString (arg args (str ''name'')) = Inr name"
  shows "call_tool b (str ''create_document'') args s
           = (Inl (McpError InvalidParams (str ''Doctype and data are required'')), s)"
    and "call_tool b (str ''update_document'') args s
           = (Inl (McpError InvalidParams (str ''Doctype, name, and data are required'')), s)"
  using assms
  by (simp_all add: call_tool_def tool_create_document_def tool_update_document_def io_bind_def
      Let_def str_def)

lemma missing_string_arguments_reach_backend:
  assumes "authenticated (erpnext s)"
  shows "new_events s (snd (call_tool b (str ''get_doctype_fields'') None s))
           = [HttpRequest (sample_request (erpnext s) (str ''undefined''))]"
    and "new_events s (snd (call_tool b (str ''run_report'') None s))
           = [HttpRequest (request_of (erpnext s) GET runReport_path
                [(str ''report_name'', Plain (JStr (str ''undefined''))),
                 (str ''filters'', Plain JUndefined)] None)]"
    and "new_events s (snd (call_tool b (str ''update_document'')
                              (Some [(str ''data'', JObj [])]) s))
           = [HttpRequest (request_of (erpnext s) PUT
                (str ''/api/resource/undefined/undefined'') [] (Some (JObj [(str ''data'', JObj [])])))]"
    and "new_events s (snd (call_tool b (str ''create_document'')
                              (Some [(str ''data'', JObj [])]) s))
           = [HttpRequest (request_of (erpnext s) POST
                (str ''/api/resource/undefined'') [] (Some (JObj [(str ''data'', JObj [])])))]"
proof -
  have u: "js_toString (arg None k) = Inr (str ''undefined'')" for k
    by (simp add: arg_def)
  have n: "str ''undefined'' \<noteq> []" by (simp add: str_def)
  have f: "call_tool b (str ''get_doctype_fields'') None s = tool_get_doctype_fields b None s"
    by (simp add: call_tool_def str_def)
  have "snd (tool_get_doctype_fields b None s)
          = snd (getDocList b (str ''undefined'') (JObj []) (JArr [JStr (str ''*'')]) (JNum (str ''1'')) s)"
    unfolding get_doctype_fields_apply [OF assms u n] by (simp split: prod.split sum.split)
  then show "new_events s (snd (call_tool b (str ''get_doctype_fields'') None s))
           = [HttpRequest (sample_request (erpnext s) (str ''undefined''))]"
    unfolding f by (simp add: snd_getDocList sample_params sample_request_def getDocList_path_def)
  have r: "call_tool b (str ''run_report'') None s = tool_run_report b None s"
    by (simp add: call_tool_def str_def)
  have "snd (tool_run_report b None s) = snd (runReport b (str ''undefined'') JUndefined s)"
    using assms n
    by (simp add: tool_run_report_def io_bind_def try_catch_def arg_def split: prod.split sum.split)
  then show "new_events s (snd (call_tool b (str ''run_report'') None s))
           = [HttpRequest (request_of (erpnext s) GET runReport_path
                [(str ''report_name'', Plain (JStr (str ''undefined''))),
                 (str ''filters'', Plain JUndefined)] None)]"
    unfolding r by (simp add: snd_runReport)
  let ?args = "Some [(str ''data'', JObj [])]"
  have a: "arg ?args (str ''doctype'') = JUndefined" "arg ?args (str ''name'') = JUndefined"
    "arg ?args (str ''data'') = JObj []"
    by (simp_all add: arg_def str_def)
  have p: "call_tool b (str ''update_document'') ?args s = tool_update_document b ?args s"
    by (simp add: call_tool_def str_def)
  have "snd (tool_update_document b ?args s)
          = snd (updateDocument b (str ''undefined'') (str ''undefined'') (JObj []) s)"
    using assms n
    by (simp add: tool_update_document_def io_bind_def try_catch_def a split: prod.split sum.split)
  then show "new_events s (snd (call_tool b (str ''update_document'') ?args s))
           = [HttpRequest (request_of (erpnext s) PUT
                (str ''/api/resource/undefined/undefined'') [] (Some (JObj [(str ''data'', JObj [])])))]"
    unfolding p by (simp add: snd_updateDocument getDocument_path_def) (simp add: str_def)
  have c: "call_tool b (str ''create_document'') ?args s = tool_create_document b ?args s"
    by (simp add: call_tool_def str_def)
  have "snd (tool_create_document b ?args s)
          = snd (createDocument b (str ''undefined'') (JObj []) s)"
    using assms n
    by (simp add: tool_create_document_def io_bind_def try_catch_def a split: prod.split sum.split)
  then show "new_events s (snd (call_tool b (str ''create_document'') ?args s))
           = [HttpRequest (request_of (erpnext s) POST
                (str ''/api/resource/undefined'') [] (Some (JObj [(str ''data'', JObj [])])))]"
    unfolding c by (simp add: snd_createDocument getDocList_path_def) (simp add: str_def)
qed

end
